theory Spec2Isabelle
  imports Main "HOL-Library.Word"
begin

unbundle bit_operations_syntax

section \<open>Platform clock of the Arduino support\<close>

text \<open>The functions of \<^verbatim>\<open>src/core/platform/lf_arduino_support.c\<close> that keep the time.\<close>

text \<open>
  The two file-level variables of the clock, both \<open>static volatile uint32_t\<close> and both
  initialised to 0:
  \<^verbatim>\<open>
  static volatile uint32_t _lf_time_us_high = 0;
  static volatile uint32_t _lf_time_us_low_last = 0;
  \<close>
\<close>

record clock_state =
  lf_time_us_high :: "32 word"
  lf_time_us_low_last :: "32 word"

definition clock_init :: clock_state where
  "clock_init = \<lparr>lf_time_us_high = 0, lf_time_us_low_last = 0\<rparr>"

text \<open>
  \<^verbatim>\<open>#define COMBINE_HI_LO(hi,lo) ((((uint64_t) hi) << 32) | ((uint64_t) lo))\<close>
\<close>

definition COMBINE_HI_LO :: "32 word \<Rightarrow> 32 word \<Rightarrow> 64 word" where
  "COMBINE_HI_LO hi lo = (push_bit 32 (ucast hi :: 64 word)) OR (ucast lo :: 64 word)"

text \<open>
  \<open>lf_clock_gettime\<close>. The argument \<open>now_us_low\<close> is the value that \<open>micros()\<close>
  returns in this call (the 32-bit microsecond counter of the board), the result is the
  value stored through the pointer \<open>t\<close> together with the variables after the call.
  \<^verbatim>\<open>
  uint32_t now_us_low = micros();
  if (now_us_low < _lf_time_us_low_last) {
      _lf_time_us_high++;
  }
  *t = COMBINE_HI_LO(_lf_time_us_high, now_us_low) * 1000ULL;
  return 0;
  \<close>
  The function has no assignment to \<open>_lf_time_us_low_last\<close>, and neither has any other
  function of the file, so the model has none.
\<close>

definition lf_clock_gettime :: "32 word \<Rightarrow> clock_state \<Rightarrow> 64 word \<times> clock_state" where
  "lf_clock_gettime now_us_low c =
     (let c' = (if now_us_low < lf_time_us_low_last c
                then c\<lparr>lf_time_us_high := lf_time_us_high c + 1\<rparr>
                else c)
      in (COMBINE_HI_LO (lf_time_us_high c') now_us_low * 1000, c'))"

text \<open>
  Successive calls: the counter readings of the calls, in order, give the list of the
  times returned.
\<close>

fun clock_reads :: "32 word list \<Rightarrow> clock_state \<Rightarrow> 64 word list" where
  "clock_reads [] c = []"
| "clock_reads (u # us) c =
     (case lf_clock_gettime u c of (t, c') \<Rightarrow> t # clock_reads us c')"

section \<open>The federate (federate.c): data\<close>

text \<open>
  \<open>instant_t\<close> and \<open>interval_t\<close> are \<open>long long\<close> (reactor.h): 64-bit words, compared
  as signed numbers (\<open>sint\<close>); \<open>ushort\<close> is 16 bits.
\<close>

type_synonym instant_t = "64 word"
type_synonym interval_t = "64 word"
type_synonym ushort = "16 word"
type_synonym byte = "8 word"

text \<open>
  Modelled from the spec: the constant \<open>NEVER\<close> of reactor.h, which is not among the
  sources; the spec calls it a sentinel that compares less than any valid time, here the
  least \<open>long long\<close>.
\<close>

definition NEVER :: instant_t where
  "NEVER = - (2 ^ 63)"

text \<open>
  The message types and rejection causes are macros of rti.h, which is not among the
  sources; the model names them and keeps the bytes that rti.h gives no name apart.
\<close>

datatype msg_type =
    FED_ID | ACK | REJECT | ADDRESS_AD | ADDRESS_QUERY | TIMESTAMP
  | NEXT_EVENT_TIME | TIME_ADVANCE_GRANT | LOGICAL_TIME_COMPLETE | STOP
  | TIMED_MESSAGE | P2P_TIMED_MESSAGE | P2P_SENDING_FED_ID
  | Unassigned byte

datatype reject_cause = FEDERATION_ID_DOES_NOT_MATCH | WRONG_SERVER | Other_cause byte

text \<open>What a function writes to a socket, one value per buffer handed to the writer.\<close>

datatype message =
    Time_msg msg_type instant_t       \<comment> \<open>type byte, then a time: 9 bytes\<close>
  | Reject_msg reject_cause           \<comment> \<open>\<open>REJECT\<close>, then the cause: 2 bytes\<close>
  | Ack_msg                           \<comment> \<open>\<open>ACK\<close>: 1 byte\<close>
  | Fed_id_msg msg_type ushort byte   \<comment> \<open>type byte, federate id, length of the federation id: 4 bytes\<close>
  | Federation_id_msg "byte list"     \<comment> \<open>the bytes of the federation id\<close>
  | Address_query_msg ushort          \<comment> \<open>\<open>ADDRESS_QUERY\<close>, then a federate id: 3 bytes\<close>

text \<open>
  Every effect on the outside world is logged, in program order: the socket a buffer is
  written to, the descriptor closed, the descriptor and port of a connect, a sleep
  (seconds, nanoseconds), a call of the scheduler (trigger, delay, payload, length), the
  creation of a reader thread for a federate and the join with the reader thread of a
  given index.
\<close>

datatype io_event =
    Write int message
  | Close int
  | Connect int int
  | Nanosleep int int
  | Schedule nat interval_t "byte list" "32 word"
  | Pthread_create ushort
  | Pthread_join nat

text \<open>
  The global variables of federate.c (and those of the reactor runtime it reads), with the
  leading underscores of their names dropped. \<open>inbound_sockets\<close> and \<open>outbound_sockets\<close>
  are the arrays \<open>_lf_federate_sockets_for_inbound_physical_connections\<close> and
  \<open>_lf_federate_sockets_for_outbound_physical_connections\<close>, of \<open>NUMBER_OF_FEDERATES\<close>
  entries each; \<open>federation_id\<close> holds the characters of the C string before its
  terminator; \<open>event_q\<close> holds the times of the events on the event queue, the head
  first.
\<close>

record federate =
  lf_my_fed_id :: ushort
  federation_id :: "byte list"
  lf_rti_socket :: int
  lf_number_of_inbound_physical_connections :: int
  inbound_sockets :: "int list"
  outbound_sockets :: "int list"
  tag :: instant_t
  tag_pending :: bool
  stop_requested :: bool
  fed_has_upstream :: bool
  fed_has_downstream :: bool
  current_time :: instant_t
  event_q :: "instant_t list"
  io :: "io_event list"

text \<open>
  The initial values the file gives: \<open>_lf_my_fed_id = 0\<close>, \<open>_lf_rti_socket = -1\<close>,
  \<open>__tag = NEVER\<close>, \<open>__tag_pending = false\<close>, no upstream and no downstream federate, and
  both socket tables filled with -1 (\<open>n\<close> is \<open>NUMBER_OF_FEDERATES\<close>).
\<close>

definition federate_init :: "nat \<Rightarrow> federate" where
  "federate_init n =
     \<lparr>lf_my_fed_id = 0, federation_id = [], lf_rti_socket = -1,
      lf_number_of_inbound_physical_connections = 0,
      inbound_sockets = replicate n (-1), outbound_sockets = replicate n (-1),
      tag = NEVER, tag_pending = False, stop_requested = False,
      fed_has_upstream = False, fed_has_downstream = False,
      current_time = 0, event_q = [], io = []\<rparr>"

text \<open>
  How a function of the file ends. \<open>read_from_socket\<close> and \<open>write_to_socket\<close> are
  functions of util.c, which is not among the sources: they take an error message and
  their callers use no result. The model follows the runs in which they transfer the
  bytes asked for. \<open>read_from_socket2\<close> returns the number of bytes read, which its
  callers test.
\<close>

datatype 'a outcome =
    Returned 'a   \<comment> \<open>the function returns\<close>
  | Waiting       \<comment> \<open>blocked in a call the environment has not answered\<close>
  | Exited        \<comment> \<open>the process exits with an error message\<close>
  | Aborted       \<comment> \<open>an assertion fails\<close>
  | Undefined     \<comment> \<open>a null pointer or an index out of range is used\<close>

section \<open>The time-advance coordinator\<close>

text \<open>
  Modelled from the spec: the priority queue \<open>pqueue\<close> is not among the sources; the spec
  gives the coordinator \<open>peek_head_time()\<close>, the time of the earliest event, if any.
\<close>

definition pqueue_peek :: "instant_t list \<Rightarrow> instant_t option" where
  "pqueue_peek q = (case q of [] \<Rightarrow> None | e # _ \<Rightarrow> Some e)"

definition pqueue_insert :: "instant_t \<Rightarrow> instant_t list \<Rightarrow> instant_t list" where
  "pqueue_insert t q = insort_key sint t q"

text \<open>
  \<^verbatim>\<open>
  void send_time(unsigned char type, instant_t time) {
      unsigned char buffer[9];
      buffer[0] = type;
      encode_ll(time, &(buffer[1]));
      write_to_socket(_lf_rti_socket, 9, buffer, ...);
  }
  \<close>
\<close>

definition send_time :: "msg_type \<Rightarrow> instant_t \<Rightarrow> federate \<Rightarrow> federate" where
  "send_time ty time s = s\<lparr>io := io s @ [Write (lf_rti_socket s) (Time_msg ty time)]\<rparr>"

text \<open>
  \<open>handle_time_advance_grant\<close>, with the grant read from the RTI socket as argument:
  \<^verbatim>\<open>
  pthread_mutex_lock(&mutex);
  __tag = swap_bytes_if_big_endian_ll(result.ull);
  __tag_pending = false;
  pthread_cond_broadcast(&event_q_changed);
  pthread_mutex_unlock(&mutex);
  \<close>
\<close>

definition handle_time_advance_grant :: "instant_t \<Rightarrow> federate \<Rightarrow> federate" where
  "handle_time_advance_grant g s = s\<lparr>tag := g, tag_pending := False\<rparr>"

text \<open>\<open>handle_incoming_stop_message\<close>: the stop time is read and ignored.\<close>

definition handle_incoming_stop_message :: "instant_t \<Rightarrow> federate \<Rightarrow> federate" where
  "handle_incoming_stop_message stop_time s = s\<lparr>stop_requested := True\<rparr>"

text \<open>
  While the caller of \<open>__next_event_time\<close> sleeps in \<open>pthread_cond_wait\<close> it does not hold
  the mutex, and the other threads act: the RTI reader handles a grant or a stop message,
  or some thread puts an event on the event queue. Each of them broadcasts
  \<open>event_q_changed\<close>. A wake-up is the list of what they did since the waiter went to
  sleep (an empty list is a spurious wake-up).
\<close>

datatype env_action =
    Tag_arrives instant_t
  | Stop_arrives instant_t
  | Event_scheduled instant_t

fun env_step :: "federate \<Rightarrow> env_action \<Rightarrow> federate" where
  "env_step s (Tag_arrives g) = handle_time_advance_grant g s"
| "env_step s (Stop_arrives t) = handle_incoming_stop_message t s"
| "env_step s (Event_scheduled t) = s\<lparr>event_q := pqueue_insert t (event_q s)\<rparr>"

definition wake_up :: "env_action list \<Rightarrow> federate \<Rightarrow> federate" where
  "wake_up w s = foldl env_step s w"

text \<open>
  The loop of \<open>__next_event_time\<close>, one wake-up per iteration; with no wake-up left the
  caller is still in \<open>pthread_cond_wait\<close>.
  \<^verbatim>\<open>
  while (__tag_pending) {
      pthread_cond_wait(&event_q_changed, &mutex);
      if (__tag_pending) {
          event_t* head_event = (event_t*)pqueue_peek(event_q);
          if (head_event != NULL && head_event->time < time) {
              return head_event->time;
          }
      }
  }
  return __tag;
  \<close>
\<close>

fun next_event_wait ::
  "instant_t \<Rightarrow> env_action list list \<Rightarrow> federate \<Rightarrow> instant_t outcome \<times> federate" where
  "next_event_wait time [] s =
     (if tag_pending s then (Waiting, s) else (Returned (tag s), s))"
| "next_event_wait time (w # ws) s =
     (if tag_pending s then
        (let s' = wake_up w s in
         if tag_pending s' then
           (case pqueue_peek (event_q s') of
              None \<Rightarrow> next_event_wait time ws s'
            | Some h \<Rightarrow>
                if sint h < sint time then (Returned h, s')
                else next_event_wait time ws s')
         else next_event_wait time ws s')
      else (Returned (tag s), s))"

text \<open>
  \<open>__next_event_time\<close>:
  \<^verbatim>\<open>
  if (!__fed_has_downstream && !__fed_has_upstream) { return time; }
  if (__tag >= time) { return time; }
  send_time(NEXT_EVENT_TIME, time);
  if (!__fed_has_upstream) { return time; }
  __tag_pending = true;
  while (__tag_pending) { ... }
  return __tag;
  \<close>
\<close>

definition next_event_time ::
  "instant_t \<Rightarrow> env_action list list \<Rightarrow> federate \<Rightarrow> instant_t outcome \<times> federate" where
  "next_event_time time ws s =
     (if \<not> fed_has_downstream s \<and> \<not> fed_has_upstream s then (Returned time, s)
      else if sint time \<le> sint (tag s) then (Returned time, s)
      else
        (let s1 = send_time NEXT_EVENT_TIME time s in
         if \<not> fed_has_upstream s1 then (Returned time, s1)
         else next_event_wait time ws (s1\<lparr>tag_pending := True\<rparr>)))"

text \<open>The values \<open>__tag\<close> takes while the grants \<open>gs\<close> are handled one after the other.\<close>

fun tag_history :: "instant_t list \<Rightarrow> federate \<Rightarrow> instant_t list" where
  "tag_history [] s = [tag s]"
| "tag_history (g # gs) s = tag s # tag_history gs (handle_time_advance_grant g s)"

section \<open>Timed messages and the peer readers\<close>

text \<open>
  A timed message as \<open>handle_timed_message\<close> reads it: the header fields that
  \<open>extract_header\<close> and \<open>extract_ll\<close> take from the 16 header bytes, and the payload of
  \<open>length\<close> bytes.
\<close>

record timed_message =
  port_id :: ushort
  federate_id :: ushort
  msg_length :: "32 word"
  timestamp :: instant_t
  message_contents :: "byte list"

text \<open>
  \<open>schedule_value_already_locked\<close>; the trigger is a pointer, \<open>None\<close> the null pointer,
  which the first statement would dereference.
  \<^verbatim>\<open>
  token_t* token = create_token(trigger->element_size);
  token->value = value;
  token->length = length;
  int return_value = __schedule(trigger, extra_delay, token);
  pthread_cond_broadcast(&event_q_changed);
  return return_value;
  \<close>
\<close>

definition schedule_value_already_locked ::
  "nat option \<Rightarrow> interval_t \<Rightarrow> byte list \<Rightarrow> 32 word \<Rightarrow> federate \<Rightarrow> unit outcome \<times> federate" where
  "schedule_value_already_locked trigger extra_delay v len s =
     (case trigger of
        None \<Rightarrow> (Undefined, s)
      | Some tr \<Rightarrow> (Returned (), s\<lparr>io := io s @ [Schedule tr extra_delay v len]\<rparr>))"

text \<open>
  \<open>handle_timed_message\<close>. The generated function \<open>__action_for_port\<close> is a parameter
  (its comment: a pointer to the trigger of the action, or null if the ID is out of
  range), and
  \<open>get_logical_time()\<close> is the variable \<open>current_time\<close>.
  \<^verbatim>\<open>
  extract_header(buffer, &port_id, &federate_id, &length);
  assert (_lf_my_fed_id == federate_id);
  instant_t timestamp = extract_ll(buffer + 8);
  unsigned char* message_contents = (unsigned char*)malloc(length);
  read_from_socket(socket, length, message_contents, ...);
  pthread_mutex_lock(&mutex);
  interval_t delay = timestamp - get_logical_time();
  schedule_value_already_locked(__action_for_port(port_id), delay, message_contents, length);
  pthread_mutex_unlock(&mutex);
  \<close>
\<close>

definition handle_timed_message ::
  "(ushort \<Rightarrow> nat option) \<Rightarrow> timed_message \<Rightarrow> federate \<Rightarrow> unit outcome \<times> federate" where
  "handle_timed_message action_for_port m s =
     (if lf_my_fed_id s \<noteq> federate_id m then (Aborted, s)
      else
        (let delay = timestamp m - current_time s
         in schedule_value_already_locked (action_for_port (port_id m)) delay
              (message_contents m) (msg_length m) s))"

text \<open>
  What one iteration of the loop of \<open>listen_to_federates\<close> finds on the socket: the result
  of \<open>read_from_socket2(socket_id, 1, buffer)\<close> (0 at the end of the stream, negative on
  an error) and, for the type byte \<open>P2P_TIMED_MESSAGE\<close>, the message that
  \<open>handle_timed_message\<close> then reads. The reader runs beside the other threads of the
  federate, which open sockets of their own (\<open>accept\<close> in
  \<open>handle_p2p_connections_from_federates\<close>, \<open>socket\<close> in \<open>connect_to_federate\<close>):
  \<open>Descriptor_reused\<close> is the moment at which one of them is given the descriptor number
  \<open>socket_id\<close>, which is possible only after the reader has closed it. From then on the
  number is open again and names the other connection.
\<close>

datatype peer_input =
    Peer_eof
  | Peer_error
  | Peer_timed timed_message
  | Peer_other msg_type
  | Descriptor_reused

text \<open>
  The two statements that the three closing branches share:
  \<^verbatim>\<open>
  close(socket_id);
  _lf_federate_sockets_for_inbound_physical_connections[fed_id] = -1;
  \<close>
\<close>

definition close_inbound :: "ushort \<Rightarrow> int \<Rightarrow> federate \<Rightarrow> federate" where
  "close_inbound fed_id socket_id s =
     s\<lparr>inbound_sockets := (inbound_sockets s)[unat fed_id := -1],
       io := io s @ [Close socket_id]\<rparr>"

text \<open>
  The loop of \<open>listen_to_federates\<close>. In the first two branches \<open>break\<close> leaves the
  \<open>while\<close> loop; in the \<open>switch\<close> both \<open>break\<close>s leave the \<open>switch\<close>, and the loop goes on
  with the next read.
  \<^verbatim>\<open>
  while (1) {
      int bytes_read = read_from_socket2(socket_id, 1, buffer);
      if (bytes_read == 0) {
          close(socket_id);
          _lf_federate_sockets_for_inbound_physical_connections[fed_id] = -1;
          break;
      } else if (bytes_read < 0) {
          close(socket_id);
          _lf_federate_sockets_for_inbound_physical_connections[fed_id] = -1;
          break;
      }
      switch(buffer[0]) {
      case P2P_TIMED_MESSAGE:
          handle_timed_message(socket_id, buffer + 1);
          break;
      default:
          close(socket_id);
          _lf_federate_sockets_for_inbound_physical_connections[fed_id] = -1;
          break;
      }
  }
  free(fed_id_ptr);
  return NULL;
  \<close>
  \<open>is_open\<close> says whether the descriptor number \<open>socket_id\<close> is open when the read is
  made. A read on a closed descriptor fails at once (\<open>read\<close> gives -1, \<open>EBADF\<close>), whatever
  the peer sends. On an open descriptor with no input left the thread is blocked in the
  read; a type byte \<open>P2P_TIMED_MESSAGE\<close> with no message after it leaves it blocked in
  \<open>handle_timed_message\<close>.
\<close>

fun listen_loop ::
  "(ushort \<Rightarrow> nat option) \<Rightarrow> ushort \<Rightarrow> int \<Rightarrow> bool \<Rightarrow> peer_input list \<Rightarrow> federate
     \<Rightarrow> unit outcome \<times> federate" where
  "listen_loop afp fed_id socket_id is_open (Descriptor_reused # ins) s =
     listen_loop afp fed_id socket_id True ins s"
| "listen_loop afp fed_id socket_id False ins s =
     (Returned (), close_inbound fed_id socket_id s)"
| "listen_loop afp fed_id socket_id True [] s = (Waiting, s)"
| "listen_loop afp fed_id socket_id True (Peer_eof # ins) s =
     (Returned (), close_inbound fed_id socket_id s)"
| "listen_loop afp fed_id socket_id True (Peer_error # ins) s =
     (Returned (), close_inbound fed_id socket_id s)"
| "listen_loop afp fed_id socket_id True (Peer_timed m # ins) s =
     (case handle_timed_message afp m s of
        (Returned u, s') \<Rightarrow> listen_loop afp fed_id socket_id True ins s'
      | (out, s') \<Rightarrow> (out, s'))"
| "listen_loop afp fed_id socket_id True (Peer_other ty # ins) s =
     (if ty = P2P_TIMED_MESSAGE then (Waiting, s)
      else listen_loop afp fed_id socket_id False ins (close_inbound fed_id socket_id s))"

text \<open>
  \<open>listen_to_federates\<close>: the socket is read from the table at the index \<open>fed_id\<close>, which
  must be inside the array; it is the open socket of the accepted connection.
  \<^verbatim>\<open>
  ushort fed_id = *((ushort*)fed_id_ptr);
  int socket_id = _lf_federate_sockets_for_inbound_physical_connections[fed_id];
  \<close>
\<close>

definition listen_to_federates ::
  "(ushort \<Rightarrow> nat option) \<Rightarrow> ushort \<Rightarrow> peer_input list \<Rightarrow> federate
     \<Rightarrow> unit outcome \<times> federate" where
  "listen_to_federates afp fed_id ins s =
     (if unat fed_id < length (inbound_sockets s)
      then listen_loop afp fed_id (inbound_sockets s ! unat fed_id) True ins s
      else (Undefined, s))"

section \<open>Connections to the RTI and to peer federates\<close>

text \<open>
  The constants of rti.h (not among the sources) that the connection functions use are
  parameters of the model.
\<close>

record rti_config =
  STARTING_PORT :: int
  PORT_RANGE_LIMIT :: int
  CONNECT_NUM_RETRIES :: int
  CONNECT_RETRY_INTERVAL :: int
  ADDRESS_QUERY_RETRY_INTERVAL :: int

text \<open>
  What the environment answers in one iteration of a connection loop: the descriptor that
  \<open>socket()\<close> returns (negative on failure), whether \<open>connect()\<close> returns 0 (it returns 0
  or -1), and the answer of the other side to the identification message, a type byte
  and the cause byte that follows a \<open>REJECT\<close>. For the RTI there is also whether
  \<open>gethostbyname\<close> finds the host.
\<close>

record attempt =
  socket_fd :: int
  connected :: bool
  answer_type :: msg_type
  answer_cause :: reject_cause

record rti_attempt = attempt +
  host_known :: bool

text \<open>\<open>strnlen\<close> of a C string given by its characters (a zero byte ends it).\<close>

definition strnlen :: "byte list \<Rightarrow> nat \<Rightarrow> nat" where
  "strnlen str maxlen = min (length (takeWhile (\<lambda>c. c \<noteq> 0) str)) maxlen"

text \<open>
  The loop of \<open>connect_to_rti\<close>; \<open>given\<close> is \<open>specific_port_given\<close>, and the parameter
  \<open>id\<close> of the C functions is \<open>fid\<close> here. The flag
  \<open>failure_message\<close> only steers what is printed and is left out; after \<open>nanosleep\<close> the
  loop goes on whether or not the sleep was interrupted.
  \<^verbatim>\<open>
  while (result < 0) {
      _lf_rti_socket = socket(AF_INET , SOCK_STREAM , 0);
      if (_lf_rti_socket < 0) { error_print_and_exit(...); }
      struct hostent *server = gethostbyname(hostname);
      if (server == NULL) { error_print_and_exit(...); }
      ...
      result = connect(_lf_rti_socket, (struct sockaddr *)&server_fd, sizeof(server_fd));
      if (result != 0 && !specific_port_given
              && port >= STARTING_PORT && port <= STARTING_PORT + PORT_RANGE_LIMIT) {
          port++;
          continue;
      }
      if (result < 0) {
          if (!specific_port_given && port == STARTING_PORT + PORT_RANGE_LIMIT + 1) {
              port = STARTING_PORT;
          }
          count_retries++;
          if (count_retries > CONNECT_NUM_RETRIES) { error_print_and_exit(...); }
          struct timespec wait_time = {(time_t)CONNECT_RETRY_INTERVAL, 0L};
          if (nanosleep(&wait_time, &remaining_time) != 0) { continue; }
      } else {
          buffer[0] = FED_ID;
          encode_ushort(id, &buffer[1]);
          size_t federation_id_length = strnlen(federation_id, 255);
          buffer[3] = federation_id_length & 0xff;
          write_to_socket(_lf_rti_socket, 4, buffer, ...);
          write_to_socket(_lf_rti_socket, federation_id_length, (unsigned char*)federation_id, ...);
          read_from_socket(_lf_rti_socket, 1, &response, ...);
          if (response == REJECT) {
              read_from_socket(_lf_rti_socket, 1, &cause, ...);
              if (cause == FEDERATION_ID_DOES_NOT_MATCH || cause == WRONG_SERVER) {
                  port++;
                  result = -1;
                  continue;
              }
              error_print_and_exit(...);
          }
      }
  }
  \<close>
\<close>

fun connect_to_rti_loop ::
  "rti_config \<Rightarrow> ushort \<Rightarrow> bool \<Rightarrow> int \<Rightarrow> int \<Rightarrow> rti_attempt list \<Rightarrow> federate
     \<Rightarrow> unit outcome \<times> federate" where
  "connect_to_rti_loop cfg fid given port count_retries [] s = (Waiting, s)"
| "connect_to_rti_loop cfg fid given port count_retries (a # as) s =
     (let s1 = s\<lparr>lf_rti_socket := socket_fd a\<rparr> in
      if socket_fd a < 0 then (Exited, s1)
      else if \<not> host_known a then (Exited, s1)
      else
        (let s2 = s1\<lparr>io := io s1 @ [Connect (socket_fd a) port]\<rparr> in
         if \<not> connected a \<and> \<not> given \<and> STARTING_PORT cfg \<le> port
              \<and> port \<le> STARTING_PORT cfg + PORT_RANGE_LIMIT cfg
         then connect_to_rti_loop cfg fid given (port + 1) count_retries as s2
         else if \<not> connected a then
           (let port' = (if \<not> given \<and> port = STARTING_PORT cfg + PORT_RANGE_LIMIT cfg + 1
                         then STARTING_PORT cfg else port);
                count' = count_retries + 1
            in if count' > CONNECT_NUM_RETRIES cfg then (Exited, s2)
               else connect_to_rti_loop cfg fid given port' count' as
                      (s2\<lparr>io := io s2 @ [Nanosleep (CONNECT_RETRY_INTERVAL cfg) 0]\<rparr>))
         else
           (let n = strnlen (federation_id s2) 255;
                s3 = s2\<lparr>io := io s2 @
                       [Write (socket_fd a) (Fed_id_msg FED_ID fid (of_nat n)),
                        Write (socket_fd a) (Federation_id_msg (take n (federation_id s2)))]\<rparr>
            in if answer_type a = REJECT then
                 (if answer_cause a = FEDERATION_ID_DOES_NOT_MATCH \<or> answer_cause a = WRONG_SERVER
                  then connect_to_rti_loop cfg fid given (port + 1) count_retries as s3
                  else (Exited, s3))
               else (Returned (), s3))))"

text \<open>
  \<open>connect_to_rti\<close>:
  \<^verbatim>\<open>
  bool specific_port_given = true;
  if (port == 0) {
      port = STARTING_PORT;
      specific_port_given = false;
  }
  int result = -1;
  int count_retries = 0;
  \<close>
\<close>

definition connect_to_rti ::
  "rti_config \<Rightarrow> ushort \<Rightarrow> int \<Rightarrow> rti_attempt list \<Rightarrow> federate \<Rightarrow> unit outcome \<times> federate" where
  "connect_to_rti cfg fid port as s =
     (if port = 0 then connect_to_rti_loop cfg fid False (STARTING_PORT cfg) 0 as s
      else connect_to_rti_loop cfg fid True port 0 as s)"

text \<open>
  An observer of the log, for stating what a port scan did: the ports of the connects,
  one list per scan pass, a sleep ending a pass.
\<close>

fun scan_passes :: "io_event list \<Rightarrow> int list list" where
  "scan_passes [] = [[]]"
| "scan_passes (Connect fd p # es) =
     (case scan_passes es of [] \<Rightarrow> [[p]] | ps # pss \<Rightarrow> (p # ps) # pss)"
| "scan_passes (Nanosleep sec nsec # es) = [] # scan_passes es"
| "scan_passes (e # es) = scan_passes es"

text \<open>Whether a logged effect is a connect.\<close>

fun is_connect :: "io_event \<Rightarrow> bool" where
  "is_connect (Connect fd p) = True"
| "is_connect e = False"

text \<open>
  The first loop of \<open>connect_to_federate\<close>, which asks the RTI for the port of the remote
  federate; the list holds the port of each \<open>ADDRESS_REPLY\<close> (the address that comes with
  it is not used by the model).
  \<^verbatim>\<open>
  while (port == -1) {
      buffer[0] = ADDRESS_QUERY;
      encode_ushort(id, &(buffer[1]));
      write_to_socket(_lf_rti_socket, sizeof(ushort) + 1, buffer, ...);
      read_from_socket(_lf_rti_socket, sizeof(int), buffer, ...);
      port = extract_int(buffer);
      read_from_socket(_lf_rti_socket, sizeof(host_ip_addr), (unsigned char *)&host_ip_addr, ...);
      if (port == -1) {
          if (count_tries++ >= CONNECT_NUM_RETRIES) { exit(1); }
          struct timespec wait_time = {0L, ADDRESS_QUERY_RETRY_INTERVAL};
          if (nanosleep(&wait_time, &remaining_time) != 0) { continue; }
      }
  }
  \<close>
\<close>

fun address_query_loop ::
  "rti_config \<Rightarrow> ushort \<Rightarrow> int \<Rightarrow> int list \<Rightarrow> federate \<Rightarrow> int outcome \<times> federate" where
  "address_query_loop cfg fid count_tries [] s = (Waiting, s)"
| "address_query_loop cfg fid count_tries (port # replies) s =
     (let s1 = s\<lparr>io := io s @ [Write (lf_rti_socket s) (Address_query_msg fid)]\<rparr> in
      if port = -1 then
        (if count_tries \<ge> CONNECT_NUM_RETRIES cfg then (Exited, s1)
         else address_query_loop cfg fid (count_tries + 1) replies
                (s1\<lparr>io := io s1 @ [Nanosleep 0 (ADDRESS_QUERY_RETRY_INTERVAL cfg)]\<rparr>))
      else (Returned port, s1))"

text \<open>
  The second loop of \<open>connect_to_federate\<close>. The descriptor is stored in the table
  before the connect is tried.
  \<^verbatim>\<open>
  while (result < 0) {
      _lf_federate_sockets_for_outbound_physical_connections[id] = socket(AF_INET , SOCK_STREAM , 0);
      if (_lf_federate_sockets_for_outbound_physical_connections[id] < 0) {
          error_print_and_exit(...);
      }
      ...
      result = connect(_lf_federate_sockets_for_outbound_physical_connections[id], ...);
      if (result != 0) {
          count_retries++;
          if (count_retries > CONNECT_NUM_RETRIES) {
              error_print("... Giving up.", ...);
              return;
          }
          struct timespec wait_time = {0L, ADDRESS_QUERY_RETRY_INTERVAL};
          if (nanosleep(&wait_time, &remaining_time) != 0) { continue; }
      } else {
          buffer[0] = P2P_SENDING_FED_ID;
          encode_ushort(_lf_my_fed_id, (unsigned char *)&(buffer[1]));
          unsigned char federation_id_length = strnlen(federation_id, 255);
          buffer[sizeof(ushort) + 1] = federation_id_length;
          write_to_socket(..., buffer_length, buffer, ...);
          write_to_socket(..., federation_id_length, (unsigned char *)federation_id, ...);
          read_from_socket(..., 1, (unsigned char *)buffer, ...);
          if (buffer[0] != ACK) {
              read_from_socket(..., 1, (unsigned char *)buffer, ...);
              result = -1;
              continue;
          }
      }
  }
  \<close>
\<close>

fun connect_to_federate_loop ::
  "rti_config \<Rightarrow> ushort \<Rightarrow> int \<Rightarrow> int \<Rightarrow> attempt list \<Rightarrow> federate
     \<Rightarrow> unit outcome \<times> federate" where
  "connect_to_federate_loop cfg fid port count_retries [] s = (Waiting, s)"
| "connect_to_federate_loop cfg fid port count_retries (a # as) s =
     (if \<not> unat fid < length (outbound_sockets s) then (Undefined, s)
      else
        (let s1 = s\<lparr>outbound_sockets := (outbound_sockets s)[unat fid := socket_fd a]\<rparr> in
         if socket_fd a < 0 then (Exited, s1)
         else
           (let s2 = s1\<lparr>io := io s1 @ [Connect (socket_fd a) port]\<rparr> in
            if \<not> connected a then
              (let count' = count_retries + 1
               in if count' > CONNECT_NUM_RETRIES cfg then (Returned (), s2)
                  else connect_to_federate_loop cfg fid port count' as
                         (s2\<lparr>io := io s2 @ [Nanosleep 0 (ADDRESS_QUERY_RETRY_INTERVAL cfg)]\<rparr>))
            else
              (let n = strnlen (federation_id s2) 255;
                   s3 = s2\<lparr>io := io s2 @
                          [Write (socket_fd a)
                             (Fed_id_msg P2P_SENDING_FED_ID (lf_my_fed_id s2) (of_nat n)),
                           Write (socket_fd a)
                             (Federation_id_msg (take n (federation_id s2)))]\<rparr>
               in if answer_type a \<noteq> ACK
                  then connect_to_federate_loop cfg fid port count_retries as s3
                  else (Returned (), s3)))))"

text \<open>
  \<open>connect_to_federate\<close>: the two loops, with \<open>assert(port < 65536)\<close> between them.
\<close>

definition connect_to_federate ::
  "rti_config \<Rightarrow> ushort \<Rightarrow> int list \<Rightarrow> attempt list \<Rightarrow> federate \<Rightarrow> unit outcome \<times> federate" where
  "connect_to_federate cfg fid replies as s =
     (case address_query_loop cfg fid 0 replies s of
        (Returned port, s1) \<Rightarrow>
          if port < 65536 then connect_to_federate_loop cfg fid port 0 as s1
          else (Aborted, s1)
      | (Waiting, s1) \<Rightarrow> (Waiting, s1)
      | (Exited, s1) \<Rightarrow> (Exited, s1)
      | (Aborted, s1) \<Rightarrow> (Aborted, s1)
      | (Undefined, s1) \<Rightarrow> (Undefined, s1))"

section \<open>Accepting connections from peer federates\<close>

text \<open>
  The result of \<open>read_from_socket2(socket, n, buffer)\<close>: a negative number, a number of
  bytes below \<open>n\<close>, or \<open>n\<close> with the buffer filled.
\<close>

datatype 'a read2 = Read_error | Read_short | Read_full 'a

text \<open>
  The four bytes of the first message of a connection: type byte, federate id and the
  length of the federation id.
\<close>

record p2p_header =
  h_type :: msg_type
  h_fed_id :: ushort
  h_federation_id_length :: byte

text \<open>
  One accepted connection: the descriptor that \<open>accept\<close> returns, the two reads, and
  whether \<open>pthread_create\<close> succeeds.
\<close>

record p2p_connection =
  accepted_fd :: int
  header_read :: "p2p_header read2"
  id_read :: "byte list read2"
  thread_created :: bool

text \<open>
  \<open>strncmp(a, b, n)\<close> from the C library, for a C string \<open>a\<close> given by its characters and
  a buffer \<open>b\<close> that has no terminator: the sign of the first difference among the first
  \<open>n\<close> characters, 0 if there is none or \<open>a\<close> ends before. Reading \<open>b\<close> beyond its last
  byte has no defined result (\<open>None\<close>).
\<close>

fun strncmp :: "byte list \<Rightarrow> byte list \<Rightarrow> nat \<Rightarrow> int option" where
  "strncmp a b 0 = Some 0"
| "strncmp a [] (Suc n) = None"
| "strncmp [] (y # b) (Suc n) = (if y = 0 then Some 0 else Some (-1))"
| "strncmp (x # a) (y # b) (Suc n) =
     (if x \<noteq> y then Some (if x < y then -1 else 1)
      else if x = 0 then Some 0
      else strncmp a b n)"

text \<open>
  The answer to a connection that is turned away, when the read did not fail:
  \<^verbatim>\<open>
  if (bytes_read >= 0) {
      response[0] = REJECT;
      response[1] = cause;
      write_to_socket2(socket_id, 2, response);
      close(socket_id);
  }
  continue;
  \<close>
\<close>

definition reject_and_close :: "int \<Rightarrow> reject_cause \<Rightarrow> federate \<Rightarrow> federate" where
  "reject_and_close socket_id cause s =
     s\<lparr>io := io s @ [Write socket_id (Reject_msg cause), Close socket_id]\<rparr>"

text \<open>The joins after the loop, one per reader thread.\<close>

definition join_readers :: "federate \<Rightarrow> federate" where
  "join_readers s =
     s\<lparr>io := io s @ map Pthread_join [0..<nat (lf_number_of_inbound_physical_connections s)]\<rparr>"

text \<open>
  \<open>handle_p2p_connections_from_federates\<close>, with \<open>received_federates\<close> as argument (0 at
  the call).
  \<^verbatim>\<open>
  while (received_federates < _lf_number_of_inbound_physical_connections) {
      int socket_id = accept(_lf_server_socket, &client_fd, &client_length);
      if (socket_id < 0) { return NULL; }
      size_t header_length = 1 + sizeof(ushort) + 1;
      unsigned char buffer[header_length];
      int bytes_read = read_from_socket2(socket_id, header_length, (unsigned char*)&buffer);
      if(bytes_read != header_length || buffer[0] != P2P_SENDING_FED_ID) {
          if (bytes_read >= 0) { ... REJECT, WRONG_SERVER ... close(socket_id); }
          continue;
      }
      unsigned char federation_id_length = buffer[header_length - 1];
      char remote_federation_id[federation_id_length];
      bytes_read = read_from_socket2(socket_id, federation_id_length,
                                     (unsigned char*)remote_federation_id);
      if(bytes_read != federation_id_length
              || (strncmp(federation_id, remote_federation_id,
                          strnlen(federation_id, 255)) != 0)) {
          if (bytes_read >= 0) { ... REJECT, FEDERATION_ID_DOES_NOT_MATCH ... close(socket_id); }
          continue;
      }
      ushort remote_fed_id = extract_ushort((unsigned char*)&(buffer[1]));
      _lf_federate_sockets_for_inbound_physical_connections[remote_fed_id] = socket_id;
      response[0] = ACK;
      write_to_socket(socket_id, 1, (unsigned char*)&response, ...);
      ...
      int result = pthread_create(&thread_ids[received_federates], NULL,
                                  listen_to_federates, remote_fed_id_copy);
      if (result != 0) {
          close(socket_id);
          error_print_and_exit(...);
      }
      received_federates++;
  }
  for (int i = 0; i < _lf_number_of_inbound_physical_connections; i++) {
      pthread_join(thread_ids[i], &thread_exit_status);
  }
  return NULL;
  \<close>
\<close>

fun handle_p2p_connections_from_federates ::
  "int \<Rightarrow> p2p_connection list \<Rightarrow> federate \<Rightarrow> unit outcome \<times> federate" where
  "handle_p2p_connections_from_federates received_federates [] s =
     (if received_federates < lf_number_of_inbound_physical_connections s then (Waiting, s)
      else (Returned (), join_readers s))"
| "handle_p2p_connections_from_federates received_federates (c # cs) s =
     (if received_federates < lf_number_of_inbound_physical_connections s then
        (if accepted_fd c < 0 then (Returned (), s)
         else
           (case header_read c of
              Read_error \<Rightarrow> handle_p2p_connections_from_federates received_federates cs s
            | Read_short \<Rightarrow>
                handle_p2p_connections_from_federates received_federates cs
                  (reject_and_close (accepted_fd c) WRONG_SERVER s)
            | Read_full h \<Rightarrow>
                if h_type h \<noteq> P2P_SENDING_FED_ID then
                  handle_p2p_connections_from_federates received_federates cs
                    (reject_and_close (accepted_fd c) WRONG_SERVER s)
                else
                  (case id_read c of
                     Read_error \<Rightarrow> handle_p2p_connections_from_federates received_federates cs s
                   | Read_short \<Rightarrow>
                       handle_p2p_connections_from_federates received_federates cs
                         (reject_and_close (accepted_fd c) FEDERATION_ID_DOES_NOT_MATCH s)
                   | Read_full remote_federation_id \<Rightarrow>
                       (case strncmp (federation_id s) remote_federation_id
                               (strnlen (federation_id s) 255) of
                          None \<Rightarrow> (Undefined, s)
                        | Some r \<Rightarrow>
                            if r \<noteq> 0 then
                              handle_p2p_connections_from_federates received_federates cs
                                (reject_and_close (accepted_fd c) FEDERATION_ID_DOES_NOT_MATCH s)
                            else if \<not> unat (h_fed_id h) < length (inbound_sockets s)
                            then (Undefined, s)
                            else
                              (let s1 = s\<lparr>inbound_sockets :=
                                           (inbound_sockets s)[unat (h_fed_id h) := accepted_fd c],
                                         io := io s @ [Write (accepted_fd c) Ack_msg]\<rparr>
                               in if thread_created c then
                                    handle_p2p_connections_from_federates
                                      (received_federates + 1) cs
                                      (s1\<lparr>io := io s1 @ [Pthread_create (h_fed_id h)]\<rparr>)
                                  else (Exited, s1\<lparr>io := io s1 @ [Close (accepted_fd c)]\<rparr>))))))
      else (Returned (), join_readers s))"

section \<open>Example inputs\<close>

text \<open>
  Values for the constants of rti.h and environments used by the concrete instances below:
  a port range of two ports from 15045, one retry; an attempt whose connect is refused; a
  timed message for port 3 of federate 0 with time 5; the federation id \<^verbatim>\<open>abc\<close>.
\<close>

definition example_config :: rti_config where
  "example_config =
     \<lparr>STARTING_PORT = 15045, PORT_RANGE_LIMIT = 1, CONNECT_NUM_RETRIES = 1,
      CONNECT_RETRY_INTERVAL = 2, ADDRESS_QUERY_RETRY_INTERVAL = 100000000\<rparr>"

definition refused :: "int \<Rightarrow> attempt" where
  "refused fd =
     \<lparr>socket_fd = fd, connected = False, answer_type = ACK, answer_cause = WRONG_SERVER\<rparr>"

definition refused_rti :: "int \<Rightarrow> rti_attempt" where
  "refused_rti fd =
     \<lparr>socket_fd = fd, connected = False, answer_type = ACK, answer_cause = WRONG_SERVER,
      host_known = True\<rparr>"

definition example_message :: timed_message where
  "example_message =
     \<lparr>port_id = 3, federate_id = 0, msg_length = 2, timestamp = 5,
      message_contents = [1, 2]\<rparr>"

definition example_action_for_port :: "ushort \<Rightarrow> nat option" where
  "example_action_for_port p = (if p = 3 then Some 7 else None)"

definition abc :: "byte list" where
  "abc = [97, 98, 99]"

section \<open>Theorems\<close>

subsection \<open>The clock never counts a wraparound\<close>

lemma lf_clock_gettime_keeps_state:
  "lf_time_us_low_last c = 0 \<Longrightarrow> snd (lf_clock_gettime u c) = c"
  by (simp add: lf_clock_gettime_def Let_def)

lemma COMBINE_HI_LO_zero: "COMBINE_HI_LO 0 lo = ucast lo"
  by (simp add: COMBINE_HI_LO_def)

text \<open>
  From the initial state every call returns the 32-bit reading times 1000: the high word
  never leaves 0.
\<close>

lemma clock_reads_low_word_only:
  "lf_time_us_high c = 0 \<Longrightarrow> lf_time_us_low_last c = 0 \<Longrightarrow>
     clock_reads us c = map (\<lambda>u. ucast u * 1000) us"
  by (induction us) (simp_all add: lf_clock_gettime_def COMBINE_HI_LO_zero)

text \<open>
  C6. The claim asks for non-decreasing times across a wraparound of the 32-bit counter,
  read at least once per period. At the readings 4294967295 and then 5 (six microseconds
  later, the counter having wrapped once) the code returns 4294967295000 and then 5000:
  the high word stays 0, because \<open>_lf_time_us_low_last\<close> is never written and the
  comparison is against 0.
\<close>

theorem lf_clock_gettime_misses_wraparound:
  "clock_reads [4294967295, 5] clock_init = [4294967295000, 5000]"
  by (simp add: lf_clock_gettime_def clock_init_def COMBINE_HI_LO_def Let_def)

subsection \<open>Wake-ups of the waiter\<close>

lemma wake_up_snoc: "wake_up (w @ [a]) s = env_step (wake_up w s) a"
  by (simp add: wake_up_def)

lemma env_step_io: "io (env_step s a) = io s"
  by (cases a) (simp_all add: handle_time_advance_grant_def handle_incoming_stop_message_def)

lemma wake_up_io: "io (wake_up w s) = io s"
  by (induction w rule: rev_induct) (simp_all add: wake_up_def env_step_io)

text \<open>Only a grant clears \<open>__tag_pending\<close>, and it leaves its value in \<open>__tag\<close>.\<close>

lemma wake_up_cleared:
  "tag_pending s \<Longrightarrow> \<not> tag_pending (wake_up w s) \<Longrightarrow> Tag_arrives (tag (wake_up w s)) \<in> set w"
proof (induction w rule: rev_induct)
  case Nil
  then show ?case by (simp add: wake_up_def)
next
  case (snoc a w)
  show ?case
  proof (cases a)
    case (Tag_arrives g)
    then show ?thesis
      by (simp add: wake_up_snoc handle_time_advance_grant_def)
  next
    case (Stop_arrives t)
    with snoc show ?thesis
      by (simp add: wake_up_snoc handle_incoming_stop_message_def)
  next
    case (Event_scheduled t)
    with snoc show ?thesis
      by (simp add: wake_up_snoc)
  qed
qed

lemma wake_up_still_pending:
  "tag_pending (wake_up w s) \<Longrightarrow>
     tag_pending s \<and> tag (wake_up w s) = tag s \<and> (\<forall>g. Tag_arrives g \<notin> set w)"
proof (induction w rule: rev_induct)
  case Nil
  then show ?case by (simp add: wake_up_def)
next
  case (snoc a w)
  then show ?case
    by (cases a)
      (auto simp add: wake_up_snoc handle_time_advance_grant_def
        handle_incoming_stop_message_def)
qed

lemma next_event_wait_not_pending:
  "\<not> tag_pending s \<Longrightarrow> next_event_wait t ws s = (Returned (tag s), s)"
  by (cases ws) simp_all

lemma next_event_wait_io: "io (snd (next_event_wait t ws s)) = io s"
proof (induction ws arbitrary: s)
  case Nil
  then show ?case by simp
next
  case (Cons w ws)
  then show ?case
    by (simp add: Let_def wake_up_io split: option.split)
qed

lemma next_event_time_waits:
  "fed_has_upstream s \<Longrightarrow> sint (tag s) < sint t \<Longrightarrow>
     next_event_time t ws s
       = next_event_wait t ws ((send_time NEXT_EVENT_TIME t s)\<lparr>tag_pending := True\<rparr>)"
  by (simp add: next_event_time_def Let_def) (simp add: send_time_def)

lemma next_event_wait_returns:
  assumes "next_event_wait t ws s = (Returned r, s')" and "tag_pending s"
  shows "(tag_pending s' \<and> pqueue_peek (event_q s') = Some r \<and> sint r < sint t)
       \<or> (\<not> tag_pending s' \<and> r = tag s' \<and> (\<exists>w \<in> set ws. Tag_arrives r \<in> set w))"
  using assms
proof (induction ws arbitrary: s)
  case Nil
  then show ?case by simp
next
  case (Cons w ws)
  let ?s1 = "wake_up w s"
  show ?case
  proof (cases "tag_pending ?s1")
    case False
    with Cons.prems have "r = tag ?s1" and "s' = ?s1"
      by (auto simp add: next_event_wait_not_pending Let_def)
    moreover from False Cons.prems(2) have "Tag_arrives (tag ?s1) \<in> set w"
      by (simp add: wake_up_cleared)
    ultimately show ?thesis using False by auto
  next
    case True
    show ?thesis
    proof (cases "pqueue_peek (event_q ?s1)")
      case None
      with True Cons.prems have "next_event_wait t ws ?s1 = (Returned r, s')"
        by (simp add: Let_def)
      from Cons.IH [OF this True] show ?thesis by auto
    next
      case (Some h)
      show ?thesis
      proof (cases "sint h < sint t")
        case hlt: True
        with Some True Cons.prems have "r = h" and "s' = ?s1"
          by (auto simp add: Let_def)
        with Some True hlt show ?thesis by simp
      next
        case False
        with Some True Cons.prems have "next_event_wait t ws ?s1 = (Returned r, s')"
          by (simp add: Let_def)
        from Cons.IH [OF this True] show ?thesis by auto
      qed
    qed
  qed
qed

lemmas coordinator_eval =
  next_event_time_def federate_init_def send_time_def NEVER_def wake_up_def
  handle_time_advance_grant_def handle_incoming_stop_message_def Let_def
  pqueue_peek_def pqueue_insert_def

subsection \<open>What \<open>__next_event_time\<close> returns\<close>

text \<open>
  The three ways in which \<open>__next_event_time(t)\<close> returns a value \<open>r\<close>: \<open>r\<close> is \<open>t\<close>; or
  the grant is still pending and \<open>r\<close> is the time of the head of the event queue at the
  return, which is less than \<open>t\<close>; or \<open>r\<close> is the value of \<open>__tag\<close>, left there by a grant
  that arrived during the wait.
\<close>

lemma next_event_time_cases:
  assumes "next_event_time t ws s = (Returned r, s')"
  shows "r = t
       \<or> (tag_pending s' \<and> pqueue_peek (event_q s') = Some r \<and> sint r < sint t)
       \<or> (\<not> tag_pending s' \<and> r = tag s' \<and> (\<exists>w \<in> set ws. Tag_arrives r \<in> set w))"
proof (cases "(\<not> fed_has_downstream s \<and> \<not> fed_has_upstream s)
    \<or> sint t \<le> sint (tag s) \<or> \<not> fed_has_upstream s")
  case True
  with assms have "r = t"
    by (auto simp add: next_event_time_def send_time_def Let_def split: if_splits)
  then show ?thesis by simp
next
  case False
  with assms have
    "next_event_wait t ws ((send_time NEXT_EVENT_TIME t s)\<lparr>tag_pending := True\<rparr>)
       = (Returned r, s')"
    by (simp add: next_event_time_def send_time_def Let_def)
  from next_event_wait_returns [OF this] show ?thesis by simp
qed

text \<open>
  C1, as amended. \<open>__next_event_time(t)\<close> returns \<open>r\<close>, and no grant that arrives during
  the wait is above \<open>t\<close>. Then \<open>r \<le> t\<close>, and \<open>r\<close> is \<open>t\<close>; or the grant is still pending and
  \<open>r\<close> is the time of the head of the event queue at the return; or \<open>r\<close> is the value of
  \<open>__tag\<close>, left there by a grant that arrived during the wait (the RTI may grant less
  than was asked for).
\<close>

theorem next_event_time_result:
  assumes "next_event_time t ws s = (Returned r, s')"
    and "\<forall>w \<in> set ws. \<forall>g. Tag_arrives g \<in> set w \<longrightarrow> sint g \<le> sint t"
  shows "sint r \<le> sint t
       \<and> (r = t
          \<or> (tag_pending s' \<and> pqueue_peek (event_q s') = Some r \<and> sint r < sint t)
          \<or> (\<not> tag_pending s' \<and> r = tag s' \<and> (\<exists>w \<in> set ws. Tag_arrives r \<in> set w)))"
proof -
  from next_event_time_cases [OF assms(1)] consider
    (asked) "r = t"
    | (head) "tag_pending s'" "pqueue_peek (event_q s') = Some r" "sint r < sint t"
    | (grant) "\<not> tag_pending s'" "r = tag s'" "\<exists>w \<in> set ws. Tag_arrives r \<in> set w"
    by blast
  then show ?thesis
  proof cases
    case asked
    then show ?thesis by simp
  next
    case head
    then show ?thesis by simp
  next
    case grant
    from grant(3) assms(2) have "sint r \<le> sint t" by blast
    with grant show ?thesis by simp
  qed
qed

text \<open>
  A federate with an upstream federate asks for 1000000. A first wake-up finds an event
  at 2000000 on the queue and the wait goes on; then the RTI grants 500000, and the call
  returns 500000.
\<close>

theorem next_event_time_result_witness:
  "fst (next_event_time 1000000 [[Event_scheduled 2000000], [Tag_arrives 500000]]
          ((federate_init 2)\<lparr>fed_has_upstream := True\<rparr>)) = Returned 500000
   \<and> sint (500000 :: instant_t) \<le> sint (1000000 :: instant_t)
   \<and> \<not> tag_pending (snd (next_event_time 1000000
          [[Event_scheduled 2000000], [Tag_arrives 500000]]
          ((federate_init 2)\<lparr>fed_has_upstream := True\<rparr>)))
   \<and> tag (snd (next_event_time 1000000 [[Event_scheduled 2000000], [Tag_arrives 500000]]
          ((federate_init 2)\<lparr>fed_has_upstream := True\<rparr>))) = 500000"
proof -
  let ?ws = "[[Event_scheduled 2000000], [Tag_arrives 500000]]"
  let ?r = "next_event_time 1000000 ?ws ((federate_init 2)\<lparr>fed_has_upstream := True\<rparr>)"
  have h: "?r = (Returned 500000, snd ?r)"
    by (simp add: coordinator_eval)
  have g: "\<forall>w \<in> set ?ws. \<forall>g. Tag_arrives g \<in> set w \<longrightarrow> sint g \<le> sint (1000000 :: instant_t)"
    by simp
  from next_event_time_result [OF h g] show ?thesis
    by (simp add: coordinator_eval)
qed

text \<open>
  The claim as stated fails: asked for 100, the RTI grants 50 and the queue is empty. The
  call returns 50, which is neither the time asked for nor the time of a queue head.
\<close>

theorem next_event_time_returns_lesser_grant:
  "fst (next_event_time 100 [[Tag_arrives 50]]
          ((federate_init 2)\<lparr>fed_has_upstream := True\<rparr>)) = Returned 50
   \<and> pqueue_peek (event_q (snd (next_event_time 100 [[Tag_arrives 50]]
          ((federate_init 2)\<lparr>fed_has_upstream := True\<rparr>)))) = None"
  by (simp add: coordinator_eval)

text \<open>
  A grant above the time asked for is returned as it is; the comment of the function
  speaks of the specified time or a lesser time, and the test before the request
  returns the time asked for when \<open>__tag\<close> is above it.
\<close>

lemma next_event_time_grant_above_request:
  "fst (next_event_time 100 [[Tag_arrives 200]]
          ((federate_init 2)\<lparr>fed_has_upstream := True\<rparr>)) = Returned 200"
  by (simp add: coordinator_eval)

subsection \<open>The granted tag\<close>

lemma tag_history_eq: "tag_history gs s = tag s # gs"
  by (induction gs arbitrary: s) (simp_all add: handle_time_advance_grant_def)

lemma sint_NEVER: "sint NEVER = - (2 ^ 63)"
  by (simp add: NEVER_def)

lemma NEVER_least: "sint NEVER \<le> sint (t :: instant_t)"
  using sint_ge [of t] by (simp add: sint_NEVER)

text \<open>
  C2, as amended. \<open>__tag\<close> starts as \<open>NEVER\<close>, which is below or equal to every time.
  \<open>handle_time_advance_grant\<close> stores the grant it received in \<open>__tag\<close> and clears
  \<open>__tag_pending\<close>, with no comparison against the value before: after it \<open>__tag\<close> is
  the grant, so it is at or above its previous value exactly when the grant is. The values
  \<open>__tag\<close> takes are its initial value followed by the grants in the order handled, and
  they are non-decreasing exactly when that list is.
\<close>

theorem tag_follows_grants:
  "tag (federate_init n) = NEVER
   \<and> sint NEVER \<le> sint g
   \<and> tag (handle_time_advance_grant g s) = g
   \<and> \<not> tag_pending (handle_time_advance_grant g s)
   \<and> (sint (tag s) \<le> sint (tag (handle_time_advance_grant g s))) = (sint (tag s) \<le> sint g)
   \<and> tag_history gs s = tag s # gs
   \<and> sorted_wrt (\<lambda>a b. sint a \<le> sint b) (tag_history gs s)
       = sorted_wrt (\<lambda>a b. sint a \<le> sint b) (tag s # gs)"
proof -
  have "tag (handle_time_advance_grant g s) = g"
    and "\<not> tag_pending (handle_time_advance_grant g s)"
    by (simp_all add: handle_time_advance_grant_def)
  moreover have "tag (federate_init n) = NEVER"
    by (simp add: federate_init_def)
  ultimately show ?thesis
    by (simp add: tag_history_eq NEVER_least)
qed

text \<open>
  The claim as stated fails: from the initial state the grant 100 and then the grant 50
  are handled, and \<open>__tag\<close> goes from \<open>NEVER\<close> to 100 and down to 50.
\<close>

theorem tag_decreases:
  "sint (tag (handle_time_advance_grant 50 (handle_time_advance_grant 100 (federate_init 2))))
     < sint (tag (handle_time_advance_grant 100 (federate_init 2)))
   \<and> tag_history [100, 50] (federate_init 2) = [NEVER, 100, 50]"
  by (simp add: handle_time_advance_grant_def federate_init_def)

subsection \<open>The fast paths of \<open>__next_event_time\<close>\<close>

text \<open>
  C3. A federate with neither upstream nor downstream federates gets \<open>t\<close> back and
  nothing is written (the state, with its log, is unchanged). Otherwise, when
  \<open>__tag \<ge> t\<close>, the same. Otherwise one \<open>NEXT_EVENT_TIME(t)\<close> message is written to the
  RTI socket, and that is all the call writes; without upstream federates the call then
  returns \<open>t\<close> at once, whatever the wake-ups.
\<close>

theorem next_event_time_fast_paths:
  "(\<not> fed_has_upstream s \<and> \<not> fed_has_downstream s \<longrightarrow>
      next_event_time t ws s = (Returned t, s))
   \<and> ((fed_has_upstream s \<or> fed_has_downstream s) \<and> sint t \<le> sint (tag s) \<longrightarrow>
      next_event_time t ws s = (Returned t, s))
   \<and> ((fed_has_upstream s \<or> fed_has_downstream s) \<and> sint (tag s) < sint t \<longrightarrow>
      io (snd (next_event_time t ws s))
        = io s @ [Write (lf_rti_socket s) (Time_msg NEXT_EVENT_TIME t)]
      \<and> (\<not> fed_has_upstream s \<longrightarrow>
           next_event_time t ws s = (Returned t, send_time NEXT_EVENT_TIME t s)))"
proof (intro conjI impI)
  assume "\<not> fed_has_upstream s \<and> \<not> fed_has_downstream s"
  then show "next_event_time t ws s = (Returned t, s)"
    by (simp add: next_event_time_def)
next
  assume "(fed_has_upstream s \<or> fed_has_downstream s) \<and> sint t \<le> sint (tag s)"
  then show "next_event_time t ws s = (Returned t, s)"
    by (simp add: next_event_time_def)
next
  assume a: "(fed_has_upstream s \<or> fed_has_downstream s) \<and> sint (tag s) < sint t"
  show "io (snd (next_event_time t ws s))
        = io s @ [Write (lf_rti_socket s) (Time_msg NEXT_EVENT_TIME t)]"
  proof (cases "fed_has_upstream s")
    case True
    with a show ?thesis
      by (simp add: next_event_time_waits next_event_wait_io) (simp add: send_time_def)
  next
    case False
    with a show ?thesis
      by (simp add: next_event_time_def Let_def) (simp add: send_time_def)
  qed
next
  assume "(fed_has_upstream s \<or> fed_has_downstream s) \<and> sint (tag s) < sint t"
    and "\<not> fed_has_upstream s"
  then show "next_event_time t ws s = (Returned t, send_time NEXT_EVENT_TIME t s)"
    by (simp add: next_event_time_def Let_def) (simp add: send_time_def)
qed

text \<open>
  The scenarios of the spec: an isolated federate; a federate already granted 2000000;
  a federate with downstream federates only; and what a federate with upstream
  federates writes.
\<close>

theorem next_event_time_fast_paths_witness:
  "next_event_time 1000000 [] (federate_init 2) = (Returned 1000000, federate_init 2)
   \<and> next_event_time 1000000 []
         ((federate_init 2)\<lparr>tag := 2000000, fed_has_downstream := True\<rparr>)
       = (Returned 1000000, (federate_init 2)\<lparr>tag := 2000000, fed_has_downstream := True\<rparr>)
   \<and> next_event_time 1000000 [] ((federate_init 2)\<lparr>fed_has_downstream := True\<rparr>)
       = (Returned 1000000,
          (federate_init 2)\<lparr>fed_has_downstream := True,
             io := [Write (-1) (Time_msg NEXT_EVENT_TIME 1000000)]\<rparr>)
   \<and> io (snd (next_event_time 1000000 [] ((federate_init 2)\<lparr>fed_has_upstream := True\<rparr>)))
       = [Write (-1) (Time_msg NEXT_EVENT_TIME 1000000)]"
  using next_event_time_fast_paths [of "federate_init 2" 1000000 "[]"]
    next_event_time_fast_paths
      [of "(federate_init 2)\<lparr>tag := 2000000, fed_has_downstream := True\<rparr>" 1000000 "[]"]
    next_event_time_fast_paths
      [of "(federate_init 2)\<lparr>fed_has_downstream := True\<rparr>" 1000000 "[]"]
    next_event_time_fast_paths
      [of "(federate_init 2)\<lparr>fed_has_upstream := True\<rparr>" 1000000 "[]"]
  by (simp add: federate_init_def send_time_def NEVER_def)

subsection \<open>A wake-up while the grant is pending\<close>

text \<open>
  C4. The waiter is in the loop with \<open>__tag_pending\<close> true and is woken; after the
  wake-up \<open>__tag_pending\<close> is still true. Then no grant has arrived and \<open>__tag\<close> is what it
  was. If the head of the event queue has a time \<open>h < t\<close>, the call returns \<open>h\<close>, in the
  state of the wake-up (\<open>__tag_pending\<close> true). If the queue is empty or its head is at
  or after \<open>t\<close>, the loop goes on to the next wait, and with no further wake-up the caller
  stays blocked.
\<close>

theorem next_event_wait_wake_up:
  assumes "tag_pending s" and "tag_pending (wake_up w s)"
  shows "(\<forall>h. pqueue_peek (event_q (wake_up w s)) = Some h \<and> sint h < sint t \<longrightarrow>
            next_event_wait t (w # ws) s = (Returned h, wake_up w s))
       \<and> (pqueue_peek (event_q (wake_up w s)) = None
            \<or> (\<exists>h. pqueue_peek (event_q (wake_up w s)) = Some h \<and> sint t \<le> sint h) \<longrightarrow>
            next_event_wait t (w # ws) s = next_event_wait t ws (wake_up w s)
            \<and> next_event_wait t [] (wake_up w s) = (Waiting, wake_up w s))
       \<and> tag (wake_up w s) = tag s
       \<and> (\<forall>g. Tag_arrives g \<notin> set w)"
proof (intro conjI allI impI)
  fix h
  assume "pqueue_peek (event_q (wake_up w s)) = Some h \<and> sint h < sint t"
  with assms show "next_event_wait t (w # ws) s = (Returned h, wake_up w s)"
    by (simp add: Let_def)
next
  assume "pqueue_peek (event_q (wake_up w s)) = None
            \<or> (\<exists>h. pqueue_peek (event_q (wake_up w s)) = Some h \<and> sint t \<le> sint h)"
  with assms show "next_event_wait t (w # ws) s = next_event_wait t ws (wake_up w s)"
    by (auto simp add: Let_def)
next
  from assms show "next_event_wait t [] (wake_up w s) = (Waiting, wake_up w s)"
    by simp
next
  from assms(2) show "tag (wake_up w s) = tag s"
    by (simp add: wake_up_still_pending)
next
  fix g
  from assms(2) show "Tag_arrives g \<notin> set w"
    by (simp add: wake_up_still_pending)
qed

text \<open>
  The scenario of the spec: the federate has asked for 1000000 and waits. An event at
  500000 makes the call return 500000 with the grant pending; an event at 2000000, or a
  wake-up with nothing on the queue, keeps it waiting.
\<close>

theorem next_event_wait_wake_up_witness:
  "next_event_time 1000000 [[Event_scheduled 500000]]
       ((federate_init 2)\<lparr>fed_has_upstream := True\<rparr>)
     = (Returned 500000,
        (federate_init 2)\<lparr>tag_pending := True, fed_has_upstream := True,
           event_q := [500000], io := [Write (-1) (Time_msg NEXT_EVENT_TIME 1000000)]\<rparr>)
   \<and> next_event_time 1000000 [[Event_scheduled 2000000]]
       ((federate_init 2)\<lparr>fed_has_upstream := True\<rparr>)
     = (Waiting,
        (federate_init 2)\<lparr>tag_pending := True, fed_has_upstream := True,
           event_q := [2000000], io := [Write (-1) (Time_msg NEXT_EVENT_TIME 1000000)]\<rparr>)
   \<and> next_event_time 1000000 [[]] ((federate_init 2)\<lparr>fed_has_upstream := True\<rparr>)
     = (Waiting,
        (federate_init 2)\<lparr>tag_pending := True, fed_has_upstream := True,
           io := [Write (-1) (Time_msg NEXT_EVENT_TIME 1000000)]\<rparr>)"
proof -
  let ?s = "(send_time NEXT_EVENT_TIME 1000000 ((federate_init 2)\<lparr>fed_has_upstream := True\<rparr>))
              \<lparr>tag_pending := True\<rparr>"
  have p: "tag_pending ?s"
    by simp
  have w: "next_event_time 1000000 ws ((federate_init 2)\<lparr>fed_has_upstream := True\<rparr>)
             = next_event_wait 1000000 ws ?s" for ws
    by (rule next_event_time_waits) (simp_all add: federate_init_def NEVER_def)
  have p1: "tag_pending (wake_up [Event_scheduled 500000] ?s)"
    and p2: "tag_pending (wake_up [Event_scheduled 2000000] ?s)"
    and p3: "tag_pending (wake_up [] ?s)"
    by (simp_all add: wake_up_def)
  from next_event_wait_wake_up [OF p p1, of 1000000 "[]"]
    next_event_wait_wake_up [OF p p2, of 1000000 "[]"]
    next_event_wait_wake_up [OF p p3, of 1000000 "[]"]
  show ?thesis
    unfolding w
    by (simp add: wake_up_def pqueue_peek_def pqueue_insert_def send_time_def federate_init_def)
qed

subsection \<open>Timed messages\<close>

lemma sint_diff_in_range:
  fixes a b :: "64 word"
  assumes "- (2 ^ 63) \<le> sint a - sint b" and "sint a - sint b < 2 ^ 63"
  shows "sint (a - b) = sint a - sint b"
proof -
  have "sint (a - b) = signed_take_bit 63 (sint a - sint b)"
    by (simp add: sint_word_ariths)
  also from assms have "\<dots> = sint a - sint b"
    by (simp add: signed_take_bit_int_eq_self)
  finally show ?thesis .
qed

text \<open>
  A timed message whose destination federate is not \<open>_lf_my_fed_id\<close> makes the
  assertion of \<open>handle_timed_message\<close> fail, and nothing is scheduled. Otherwise, \<open>a\<close>
  being the action for the port of the message, the scheduler is called once, for \<open>a\<close>,
  with the payload and its length and with the delay \<open>timestamp - current_time\<close> as
  computed: whenever that difference is a \<open>long long\<close>, the delay passed has exactly this
  signed value, negative when the timestamp is before the logical time.
\<close>

theorem handle_timed_message_schedules:
  "(federate_id m \<noteq> lf_my_fed_id s \<longrightarrow> handle_timed_message afp m s = (Aborted, s))
   \<and> (federate_id m = lf_my_fed_id s \<and> afp (port_id m) = Some a \<longrightarrow>
        handle_timed_message afp m s
          = (Returned (),
             s\<lparr>io := io s @ [Schedule a (timestamp m - current_time s)
                               (message_contents m) (msg_length m)]\<rparr>)
        \<and> (- (2 ^ 63) \<le> sint (timestamp m) - sint (current_time s)
             \<and> sint (timestamp m) - sint (current_time s) < 2 ^ 63 \<longrightarrow>
             sint (timestamp m - current_time s)
               = sint (timestamp m) - sint (current_time s)))"
proof (intro conjI impI)
  assume "federate_id m \<noteq> lf_my_fed_id s"
  then show "handle_timed_message afp m s = (Aborted, s)"
    by (auto simp add: handle_timed_message_def)
next
  assume "federate_id m = lf_my_fed_id s \<and> afp (port_id m) = Some a"
  then show "handle_timed_message afp m s
          = (Returned (),
             s\<lparr>io := io s @ [Schedule a (timestamp m - current_time s)
                               (message_contents m) (msg_length m)]\<rparr>)"
    by (simp add: handle_timed_message_def schedule_value_already_locked_def)
next
  assume "- (2 ^ 63) \<le> sint (timestamp m) - sint (current_time s)
             \<and> sint (timestamp m) - sint (current_time s) < 2 ^ 63"
  then show "sint (timestamp m - current_time s)
               = sint (timestamp m) - sint (current_time s)"
    by (simp add: sint_diff_in_range)
qed

text \<open>
  At logical time 10 a message for federate 0 with timestamp 5 is scheduled on action 7
  with delay -5; the same message addressed to federate 4 aborts the federate 0.
\<close>

theorem handle_timed_message_schedules_witness:
  "handle_timed_message example_action_for_port example_message
       ((federate_init 2)\<lparr>current_time := 10\<rparr>)
     = (Returned (),
        (federate_init 2)\<lparr>current_time := 10, io := [Schedule 7 (- 5) [1, 2] 2]\<rparr>)
   \<and> sint (timestamp example_message - current_time ((federate_init 2)\<lparr>current_time := 10\<rparr>))
       = - 5
   \<and> handle_timed_message example_action_for_port (example_message\<lparr>federate_id := 4\<rparr>)
       ((federate_init 2)\<lparr>current_time := 10\<rparr>)
     = (Aborted, (federate_init 2)\<lparr>current_time := 10\<rparr>)"
  using handle_timed_message_schedules
      [of example_message "(federate_init 2)\<lparr>current_time := 10\<rparr>"
          example_action_for_port 7]
    handle_timed_message_schedules
      [of "example_message\<lparr>federate_id := 4\<rparr>" "(federate_init 2)\<lparr>current_time := 10\<rparr>"
          example_action_for_port 7]
  by (simp add: example_message_def example_action_for_port_def federate_init_def)

text \<open>
  When \<open>__action_for_port\<close> has no action for the port, the null pointer it returns goes
  to \<open>schedule_value_already_locked\<close>, which dereferences it.
\<close>

lemma handle_timed_message_no_action:
  "federate_id m = lf_my_fed_id s \<Longrightarrow> afp (port_id m) = None \<Longrightarrow>
     handle_timed_message afp m s = (Undefined, s)"
  by (simp add: handle_timed_message_def schedule_value_already_locked_def)

text \<open>
  C7. Federate 0 has an action for port 3 only, and its logical time is 10. A timed
  message addressed to federate 0, for port 4, with timestamp 5 and a payload of two
  bytes passes the assertion on the destination, and is not scheduled: the null trigger
  is dereferenced.
\<close>

theorem handle_timed_message_null_action:
  "federate_id (example_message\<lparr>port_id := 4\<rparr>)
     = lf_my_fed_id ((federate_init 2)\<lparr>current_time := 10\<rparr>)
   \<and> example_action_for_port 4 = None
   \<and> handle_timed_message example_action_for_port (example_message\<lparr>port_id := 4\<rparr>)
       ((federate_init 2)\<lparr>current_time := 10\<rparr>)
     = (Undefined, (federate_init 2)\<lparr>current_time := 10\<rparr>)"
  by (simp add: handle_timed_message_def schedule_value_already_locked_def
      example_message_def example_action_for_port_def federate_init_def)

subsection \<open>The peer reader\<close>

text \<open>
  After a type byte that is not \<open>P2P_TIMED_MESSAGE\<close> the loop is not left: the socket is
  closed, the slot cleared, and the next read is made on the closed descriptor.
\<close>

lemma listen_loop_unrecognized:
  "ty \<noteq> P2P_TIMED_MESSAGE \<Longrightarrow>
     listen_loop afp fed_id socket_id True (Peer_other ty # ins) s
       = listen_loop afp fed_id socket_id False ins (close_inbound fed_id socket_id s)"
  by simp

text \<open>
  As long as no other thread is given the descriptor number, that read fails and the
  thread ends, the socket closed twice.
\<close>

lemma listen_loop_unrecognized_ends:
  "ty \<noteq> P2P_TIMED_MESSAGE \<Longrightarrow> (\<forall>more. ins \<noteq> Descriptor_reused # more) \<Longrightarrow>
     listen_loop afp fed_id socket_id True (Peer_other ty # ins) s
       = (Returned (), close_inbound fed_id socket_id (close_inbound fed_id socket_id s))"
proof (cases ins)
  case Nil
  assume "ty \<noteq> P2P_TIMED_MESSAGE"
  with Nil show ?thesis by simp
next
  case (Cons i more)
  assume ty: "ty \<noteq> P2P_TIMED_MESSAGE" and "\<forall>more. ins \<noteq> Descriptor_reused # more"
  with Cons have "i \<noteq> Descriptor_reused" by simp
  with Cons ty show ?thesis by (cases i) simp_all
qed

text \<open>
  C8. The reader of federate 1, on descriptor 8, reads a type byte that is not
  \<open>P2P_TIMED_MESSAGE\<close>. It closes the socket and clears the slot, but it stays in the loop
  and reads again from descriptor number 8. Before that read another thread of the
  federate has been given the number 8 for a connection of its own. So the reader has not
  ended when it saw the unrecognized byte: with nothing to read on the other connection
  it is blocked there; and when a timed message and then the end of the stream arrive on
  the other connection, the reader schedules that message and closes the other
  connection. When no thread is given the number, the read fails and the thread ends
  after a second close, as it does after one close at the end of the stream.
\<close>

theorem listen_to_federates_reads_on_after_unrecognized_type:
  "listen_to_federates example_action_for_port 1 [Peer_other (Unassigned 0), Descriptor_reused]
       ((federate_init 2)\<lparr>inbound_sockets := [-1, 8]\<rparr>)
     = (Waiting, (federate_init 2)\<lparr>inbound_sockets := [-1, -1], io := [Close 8]\<rparr>)
   \<and> listen_to_federates example_action_for_port 1
       [Peer_other (Unassigned 0), Descriptor_reused, Peer_timed example_message, Peer_eof]
       ((federate_init 2)\<lparr>inbound_sockets := [-1, 8]\<rparr>)
     = (Returned (),
        (federate_init 2)\<lparr>inbound_sockets := [-1, -1],
           io := [Close 8, Schedule 7 5 [1, 2] 2, Close 8]\<rparr>)
   \<and> listen_to_federates example_action_for_port 1 [Peer_other (Unassigned 0)]
       ((federate_init 2)\<lparr>inbound_sockets := [-1, 8]\<rparr>)
     = (Returned (), (federate_init 2)\<lparr>inbound_sockets := [-1, -1], io := [Close 8, Close 8]\<rparr>)
   \<and> listen_to_federates example_action_for_port 1 [Peer_eof]
       ((federate_init 2)\<lparr>inbound_sockets := [-1, 8]\<rparr>)
     = (Returned (), (federate_init 2)\<lparr>inbound_sockets := [-1, -1], io := [Close 8]\<rparr>)"
  by (simp add: listen_to_federates_def close_inbound_def federate_init_def
      handle_timed_message_def schedule_value_already_locked_def example_message_def
      example_action_for_port_def)

subsection \<open>The port scan of \<open>connect_to_rti\<close>\<close>

lemma scan_passes_nonempty: "scan_passes es \<noteq> []"
  by (induction es rule: scan_passes.induct) (simp_all split: list.split)

lemma scan_passes_connects:
  "length xs = length qs \<Longrightarrow>
     scan_passes (map (\<lambda>(a, q). Connect (socket_fd a) q) (zip xs qs) @ es)
       = (qs @ hd (scan_passes es)) # tl (scan_passes es)"
proof (induction xs qs rule: list_induct2)
  case Nil
  then show ?case by (simp add: scan_passes_nonempty)
next
  case (Cons x xs y ys)
  then show ?case by simp
qed

lemma connects_only:
  "\<forall>e \<in> set (map (\<lambda>(a, q). Connect (socket_fd a) q) (zip xs qs)). is_connect e"
  by auto

text \<open>
  One scan pass in which every connect is refused: from the port \<open>p\<close> the loop tries the
  ports up to \<open>STARTING_PORT + PORT_RANGE_LIMIT + 1\<close>, one attempt each, and then counts a
  retry.
\<close>

lemma scan_to_end:
  assumes "\<forall>a \<in> set xs. 0 \<le> socket_fd a \<and> host_known a \<and> \<not> connected a"
    and "STARTING_PORT cfg \<le> p"
    and "int (length xs) = STARTING_PORT cfg + PORT_RANGE_LIMIT cfg + 2 - p"
    and "xs \<noteq> []"
  shows "connect_to_rti_loop cfg fid False p c (xs @ rest) s =
     (let s' = s\<lparr>lf_rti_socket := socket_fd (last xs),
                 io := io s @ map (\<lambda>(a, q). Connect (socket_fd a) q)
                            (zip xs [p..STARTING_PORT cfg + PORT_RANGE_LIMIT cfg + 1])\<rparr>
      in if c + 1 > CONNECT_NUM_RETRIES cfg then (Exited, s')
         else connect_to_rti_loop cfg fid False (STARTING_PORT cfg) (c + 1) rest
                (s'\<lparr>io := io s' @ [Nanosleep (CONNECT_RETRY_INTERVAL cfg) 0]\<rparr>))"
  using assms
proof (induction xs arbitrary: p s)
  case Nil
  then show ?case by simp
next
  case (Cons a xs)
  let ?top = "STARTING_PORT cfg + PORT_RANGE_LIMIT cfg + 1"
  from Cons.prems have a: "0 \<le> socket_fd a" "host_known a" "\<not> connected a"
    by simp_all
  show ?case
  proof (cases "xs = []")
    case True
    with Cons.prems have p: "p = ?top" by simp
    then have "[p..?top] = [p]" by simp
    with True a p show ?thesis
      by (simp add: Let_def)
  next
    case False
    with Cons.prems have p: "p \<le> STARTING_PORT cfg + PORT_RANGE_LIMIT cfg"
      by (cases xs) auto
    then have up: "[p..?top] = p # [p + 1..?top]"
      by (simp add: upto_rec1)
    have "connect_to_rti_loop cfg fid False p c ((a # xs) @ rest) s
        = connect_to_rti_loop cfg fid False (p + 1) c (xs @ rest)
            (s\<lparr>lf_rti_socket := socket_fd a, io := io s @ [Connect (socket_fd a) p]\<rparr>)"
      using a p Cons.prems(2) by (simp add: Let_def)
    also have "\<dots> = (let s' = s\<lparr>lf_rti_socket := socket_fd (last (a # xs)),
                 io := io s @ map (\<lambda>(a, q). Connect (socket_fd a) q)
                            (zip (a # xs) [p..?top])\<rparr>
      in if c + 1 > CONNECT_NUM_RETRIES cfg then (Exited, s')
         else connect_to_rti_loop cfg fid False (STARTING_PORT cfg) (c + 1) rest
                (s'\<lparr>io := io s' @ [Nanosleep (CONNECT_RETRY_INTERVAL cfg) 0]\<rparr>))"
      using Cons.prems False up
      by (subst Cons.IH) (simp_all add: Let_def)
    finally show ?thesis .
  qed
qed

text \<open>
  With every connect refused and \<open>n\<close> retries left, the loop makes \<open>n + 1\<close> passes and
  exits.
\<close>

lemma passes_until_exit:
  assumes "0 \<le> PORT_RANGE_LIMIT cfg"
    and "\<forall>a \<in> set as. 0 \<le> socket_fd a \<and> host_known a \<and> \<not> connected a"
    and "c \<le> CONNECT_NUM_RETRIES cfg"
    and "(CONNECT_NUM_RETRIES cfg - c + 1) * (PORT_RANGE_LIMIT cfg + 2) \<le> int (length as)"
    and "n = nat (CONNECT_NUM_RETRIES cfg - c)"
  shows "\<exists>tr. fst (connect_to_rti_loop cfg fid False (STARTING_PORT cfg) c as s) = Exited
      \<and> io (snd (connect_to_rti_loop cfg fid False (STARTING_PORT cfg) c as s)) = io s @ tr
      \<and> scan_passes tr = replicate (Suc n)
           [STARTING_PORT cfg..STARTING_PORT cfg + PORT_RANGE_LIMIT cfg + 1]
      \<and> (\<forall>e \<in> set tr. is_connect e \<or> e = Nanosleep (CONNECT_RETRY_INTERVAL cfg) 0)"
  using assms(2-)
proof (induction n arbitrary: c as s)
  case 0
  let ?m = "nat (PORT_RANGE_LIMIT cfg + 2)"
  let ?xs = "take ?m as" and ?rest = "drop ?m as"
  let ?top = "STARTING_PORT cfg + PORT_RANGE_LIMIT cfg + 1"
  let ?cs = "map (\<lambda>(a, q). Connect (socket_fd a) q) (zip ?xs [STARTING_PORT cfg..?top])"
  from 0 have c: "c = CONNECT_NUM_RETRIES cfg" by simp
  with 0 assms(1) have len: "int (length ?xs) = PORT_RANGE_LIMIT cfg + 2" by simp
  with assms(1) have ne: "?xs \<noteq> []" by auto
  have fails: "\<forall>a \<in> set ?xs. 0 \<le> socket_fd a \<and> host_known a \<and> \<not> connected a"
    using 0(1) by (meson in_set_takeD)
  have leq: "length ?xs = length [STARTING_PORT cfg..?top]"
    using len assms(1) by simp
  have "connect_to_rti_loop cfg fid False (STARTING_PORT cfg) c (?xs @ ?rest) s
      = (Exited, s\<lparr>lf_rti_socket := socket_fd (last ?xs), io := io s @ ?cs\<rparr>)"
    using c len by (subst scan_to_end [OF fails _ _ ne]) (simp_all add: Let_def)
  then have r: "connect_to_rti_loop cfg fid False (STARTING_PORT cfg) c as s
      = (Exited, s\<lparr>lf_rti_socket := socket_fd (last ?xs), io := io s @ ?cs\<rparr>)"
    by simp
  have "scan_passes ?cs = [[STARTING_PORT cfg..?top]]"
    using scan_passes_connects [OF leq, of "[]"] by simp
  with r connects_only [of ?xs "[STARTING_PORT cfg..?top]"] show ?case
    by (intro exI [of _ ?cs]) simp
next
  case (Suc n)
  let ?m = "nat (PORT_RANGE_LIMIT cfg + 2)"
  let ?xs = "take ?m as" and ?rest = "drop ?m as"
  let ?top = "STARTING_PORT cfg + PORT_RANGE_LIMIT cfg + 1"
  let ?cs = "map (\<lambda>(a, q). Connect (socket_fd a) q) (zip ?xs [STARTING_PORT cfg..?top])"
  let ?sl = "Nanosleep (CONNECT_RETRY_INTERVAL cfg) 0"
  let ?s' = "s\<lparr>lf_rti_socket := socket_fd (last ?xs), io := io s @ ?cs @ [?sl]\<rparr>"
  from Suc.prems have c: "c + 1 \<le> CONNECT_NUM_RETRIES cfg" by simp
  have "PORT_RANGE_LIMIT cfg + 2
      \<le> (CONNECT_NUM_RETRIES cfg - c + 1) * (PORT_RANGE_LIMIT cfg + 2)"
    using mult_right_mono [of 1 "CONNECT_NUM_RETRIES cfg - c + 1" "PORT_RANGE_LIMIT cfg + 2"]
      c assms(1) by simp
  from this Suc.prems(3) have "PORT_RANGE_LIMIT cfg + 2 \<le> int (length as)"
    by (rule order_trans)
  with assms(1) have len: "int (length ?xs) = PORT_RANGE_LIMIT cfg + 2" by simp
  with assms(1) have ne: "?xs \<noteq> []" by auto
  have fails: "\<forall>a \<in> set ?xs. 0 \<le> socket_fd a \<and> host_known a \<and> \<not> connected a"
    using Suc.prems(1) by (meson in_set_takeD)
  have fails': "\<forall>a \<in> set ?rest. 0 \<le> socket_fd a \<and> host_known a \<and> \<not> connected a"
    using Suc.prems(1) by (meson in_set_dropD)
  have leq: "length ?xs = length [STARTING_PORT cfg..?top]"
    using len assms(1) by simp
  have "connect_to_rti_loop cfg fid False (STARTING_PORT cfg) c (?xs @ ?rest) s
      = connect_to_rti_loop cfg fid False (STARTING_PORT cfg) (c + 1) ?rest ?s'"
    using c len by (subst scan_to_end [OF fails _ _ ne]) (simp_all add: Let_def)
  then have r: "connect_to_rti_loop cfg fid False (STARTING_PORT cfg) c as s
      = connect_to_rti_loop cfg fid False (STARTING_PORT cfg) (c + 1) ?rest ?s'"
    by simp
  have "(CONNECT_NUM_RETRIES cfg - (c + 1) + 1) * (PORT_RANGE_LIMIT cfg + 2)
          + (PORT_RANGE_LIMIT cfg + 2)
      = (CONNECT_NUM_RETRIES cfg - c + 1) * (PORT_RANGE_LIMIT cfg + 2)"
    by (simp add: algebra_simps)
  with Suc.prems(3) len have enough:
    "(CONNECT_NUM_RETRIES cfg - (c + 1) + 1) * (PORT_RANGE_LIMIT cfg + 2)
      \<le> int (length ?rest)"
    by simp
  from Suc.prems have n: "n = nat (CONNECT_NUM_RETRIES cfg - (c + 1))" by simp
  from Suc.IH [OF fails' c enough n, of ?s'] obtain tr where
    tr: "fst (connect_to_rti_loop cfg fid False (STARTING_PORT cfg) (c + 1) ?rest ?s') = Exited"
      "io (snd (connect_to_rti_loop cfg fid False (STARTING_PORT cfg) (c + 1) ?rest ?s'))
         = io ?s' @ tr"
      "scan_passes tr = replicate (Suc n) [STARTING_PORT cfg..?top]"
      "\<forall>e \<in> set tr. is_connect e \<or> e = ?sl"
    by blast
  have "scan_passes (?cs @ ?sl # tr) = [STARTING_PORT cfg..?top] # scan_passes tr"
    using scan_passes_connects [OF leq, of "?sl # tr"] by simp
  with tr r connects_only [of ?xs "[STARTING_PORT cfg..?top]"] show ?case
    by (intro exI [of _ "?cs @ ?sl # tr"]) auto
qed

lemmas rti_eval =
  connect_to_rti_def example_config_def refused_rti_def federate_init_def Let_def

text \<open>
  C5, as amended. \<open>connect_to_rti\<close> is called with no port (\<open>port = 0\<close>) and every TCP
  connect is refused, for as many attempts as the call makes. Then the log of the call
  holds only connects and sleeps of \<open>CONNECT_RETRY_INTERVAL\<close> seconds; the sleeps divide it
  into \<open>CONNECT_NUM_RETRIES + 1\<close> scan passes; every pass starts at \<open>STARTING_PORT\<close> and
  tries the ports \<open>STARTING_PORT, ..., STARTING_PORT + PORT_RANGE_LIMIT\<close> in this order
  before anything else, so a sleep and the wrap back to \<open>STARTING_PORT\<close> come only after
  the connects to all \<open>PORT_RANGE_LIMIT + 1\<close> ports of the range have failed; and the
  process exits with an error in the pass after the last retry.
\<close>

theorem connect_to_rti_port_scan:
  assumes "0 \<le> PORT_RANGE_LIMIT cfg" and "0 \<le> CONNECT_NUM_RETRIES cfg"
    and "\<forall>a \<in> set as. 0 \<le> socket_fd a \<and> host_known a \<and> \<not> connected a"
    and "(CONNECT_NUM_RETRIES cfg + 1) * (PORT_RANGE_LIMIT cfg + 2) \<le> int (length as)"
  shows "fst (connect_to_rti cfg fid 0 as s) = Exited
    \<and> (\<exists>tr. io (snd (connect_to_rti cfg fid 0 as s)) = io s @ tr
         \<and> length (scan_passes tr) = nat (CONNECT_NUM_RETRIES cfg + 1)
         \<and> (\<forall>ps \<in> set (scan_passes tr).
               \<exists>more. ps = [STARTING_PORT cfg..STARTING_PORT cfg + PORT_RANGE_LIMIT cfg] @ more)
         \<and> (\<forall>e \<in> set tr. is_connect e \<or> e = Nanosleep (CONNECT_RETRY_INTERVAL cfg) 0))"
proof -
  let ?top = "STARTING_PORT cfg + PORT_RANGE_LIMIT cfg + 1"
  from assms(4) have enough:
    "(CONNECT_NUM_RETRIES cfg - 0 + 1) * (PORT_RANGE_LIMIT cfg + 2) \<le> int (length as)"
    by simp
  from passes_until_exit [OF assms(1) assms(3) assms(2) enough refl, of fid s]
  obtain tr where tr:
    "fst (connect_to_rti_loop cfg fid False (STARTING_PORT cfg) 0 as s) = Exited"
    "io (snd (connect_to_rti_loop cfg fid False (STARTING_PORT cfg) 0 as s)) = io s @ tr"
    "scan_passes tr
       = replicate (Suc (nat (CONNECT_NUM_RETRIES cfg - 0))) [STARTING_PORT cfg..?top]"
    "\<forall>e \<in> set tr. is_connect e \<or> e = Nanosleep (CONNECT_RETRY_INTERVAL cfg) 0"
    by blast
  from assms(1) have "[STARTING_PORT cfg..?top]
      = [STARTING_PORT cfg..STARTING_PORT cfg + PORT_RANGE_LIMIT cfg] @ [?top]"
    by (simp add: upto_rec2)
  with tr(3) have cover: "\<forall>ps \<in> set (scan_passes tr).
      \<exists>more. ps = [STARTING_PORT cfg..STARTING_PORT cfg + PORT_RANGE_LIMIT cfg] @ more"
    by auto
  from tr(3) assms(2) have "length (scan_passes tr) = nat (CONNECT_NUM_RETRIES cfg + 1)"
    by (simp add: nat_add_distrib)
  with tr(1,2,4) cover show ?thesis
    by (auto simp add: connect_to_rti_def)
qed

text \<open>
  With the ports 15045 and 15046 in the range and one retry, six refused connects end the
  process, after two passes.
\<close>

theorem connect_to_rti_port_scan_witness:
  "fst (connect_to_rti example_config 1 0 (map refused_rti [3, 4, 5, 6, 7, 8])
          (federate_init 2)) = Exited
   \<and> length (scan_passes (io (snd (connect_to_rti example_config 1 0
          (map refused_rti [3, 4, 5, 6, 7, 8]) (federate_init 2))))) = 2"
proof -
  have "0 \<le> PORT_RANGE_LIMIT example_config" and "0 \<le> CONNECT_NUM_RETRIES example_config"
    and "\<forall>a \<in> set (map refused_rti [3, 4, 5, 6, 7, 8]).
           0 \<le> socket_fd a \<and> host_known a \<and> \<not> connected a"
    and "(CONNECT_NUM_RETRIES example_config + 1) * (PORT_RANGE_LIMIT example_config + 2)
           \<le> int (length (map refused_rti [3, 4, 5, 6, 7, 8]))"
    by (simp_all add: example_config_def refused_rti_def)
  from connect_to_rti_port_scan [OF this, of 1 "federate_init 2"]
  have "fst (connect_to_rti example_config 1 0 (map refused_rti [3, 4, 5, 6, 7, 8])
          (federate_init 2)) = Exited"
    by simp
  moreover have "length (scan_passes (io (snd (connect_to_rti example_config 1 0
          (map refused_rti [3, 4, 5, 6, 7, 8]) (federate_init 2))))) = 2"
    by (simp add: rti_eval)
  ultimately show ?thesis by simp
qed

text \<open>
  The claim as stated fails. With \<open>PORT_RANGE_LIMIT = 1\<close> and \<open>CONNECT_NUM_RETRIES = 1\<close> and
  every connect refused, the sleep does not follow the second failed attempt (a third
  connect does), and the process does not exit after one scan pass (it makes two).
\<close>

theorem connect_to_rti_passes_counterexample:
  "connect_to_rti example_config 1 0 (map refused_rti [3, 4, 5, 6, 7, 8]) (federate_init 2)
     = (Exited,
        (federate_init 2)\<lparr>lf_rti_socket := 8,
           io := [Connect 3 15045, Connect 4 15046, Connect 5 15047, Nanosleep 2 0,
                  Connect 6 15045, Connect 7 15046, Connect 8 15047]\<rparr>)"
  by (simp add: rti_eval)

subsection \<open>Giving up on a peer federate\<close>

lemma address_query_loop_outbound:
  "outbound_sockets (snd (address_query_loop cfg fid c replies s)) = outbound_sockets s"
  by (induction replies arbitrary: c s) (simp_all add: Let_def)

lemma connect_to_federate_loop_gives_up:
  assumes "unat fid < length (outbound_sockets s)"
    and "pre \<noteq> []" and "\<not> connected (last pre)"
    and "\<forall>a \<in> set pre. 0 \<le> socket_fd a \<and> (connected a \<longrightarrow> answer_type a \<noteq> ACK)"
    and "c + int (length (filter (\<lambda>a. \<not> connected a) pre)) = CONNECT_NUM_RETRIES cfg + 1"
  shows "fst (connect_to_federate_loop cfg fid port c (pre @ rest) s) = Returned ()
     \<and> outbound_sockets (snd (connect_to_federate_loop cfg fid port c (pre @ rest) s))
         = (outbound_sockets s)[unat fid := socket_fd (last pre)]
     \<and> last (io (snd (connect_to_federate_loop cfg fid port c (pre @ rest) s)))
         = Connect (socket_fd (last pre)) port"
  using assms
proof (induction pre arbitrary: c s)
  case Nil
  then show ?case by simp
next
  case (Cons a pre)
  show ?case
  proof (cases "pre = []")
    case True
    with Cons.prems show ?thesis
      by (simp add: Let_def)
  next
    case False
    with Cons.prems(3) have lastf: "\<not> connected (last pre)" by simp
    then have "last pre \<in> set (filter (\<lambda>a. \<not> connected a) pre)"
      using False by simp
    then have pos: "0 < length (filter (\<lambda>a. \<not> connected a) pre)"
      by (rule length_pos_if_in_set)
    from Cons.prems(4) have rest_ok:
      "\<forall>a \<in> set pre. 0 \<le> socket_fd a \<and> (connected a \<longrightarrow> answer_type a \<noteq> ACK)"
      and a: "0 \<le> socket_fd a" "connected a \<longrightarrow> answer_type a \<noteq> ACK"
      by simp_all
    show ?thesis
    proof (cases "connected a")
      case True
      let ?n = "strnlen (federation_id s) 255"
      let ?s3 = "s\<lparr>outbound_sockets := (outbound_sockets s)[unat fid := socket_fd a],
          io := io s @ [Connect (socket_fd a) port,
             Write (socket_fd a) (Fed_id_msg P2P_SENDING_FED_ID (lf_my_fed_id s) (of_nat ?n)),
             Write (socket_fd a) (Federation_id_msg (take ?n (federation_id s)))]\<rparr>"
      from True a Cons.prems(1) have step:
        "connect_to_federate_loop cfg fid port c ((a # pre) @ rest) s
           = connect_to_federate_loop cfg fid port c (pre @ rest) ?s3"
        by (simp add: Let_def)
      from True Cons.prems(5) have cnt:
        "c + int (length (filter (\<lambda>a. \<not> connected a) pre)) = CONNECT_NUM_RETRIES cfg + 1"
        by simp
      from Cons.prems(1) have len: "unat fid < length (outbound_sockets ?s3)" by simp
      from Cons.IH [OF len False lastf rest_ok cnt] step False show ?thesis
        by simp
    next
      case False
      let ?s2 = "s\<lparr>outbound_sockets := (outbound_sockets s)[unat fid := socket_fd a],
          io := io s @ [Connect (socket_fd a) port,
             Nanosleep 0 (ADDRESS_QUERY_RETRY_INTERVAL cfg)]\<rparr>"
      from False Cons.prems(5) pos have c: "c + 1 \<le> CONNECT_NUM_RETRIES cfg"
        and cnt: "(c + 1) + int (length (filter (\<lambda>a. \<not> connected a) pre))
                    = CONNECT_NUM_RETRIES cfg + 1"
        by (simp_all del: length_greater_0_conv)
      from False a c Cons.prems(1) have step:
        "connect_to_federate_loop cfg fid port c ((a # pre) @ rest) s
           = connect_to_federate_loop cfg fid port (c + 1) (pre @ rest) ?s2"
        by (simp add: Let_def)
      from Cons.prems(1) have len: "unat fid < length (outbound_sockets ?s2)" by simp
      from Cons.IH [OF len \<open>pre \<noteq> []\<close> lastf rest_ok cnt] step \<open>pre \<noteq> []\<close> show ?thesis
        by simp
    qed
  qed
qed

text \<open>
  C10. \<open>connect_to_federate(fid)\<close> has got the port of the remote federate from the RTI,
  and \<open>fid\<close> is an index of the table. The attempts \<open>pre\<close> are the ones up to the connect
  that fails for the \<open>(CONNECT_NUM_RETRIES + 1)\<close>-th time: \<open>socket()\<close> succeeds in each, and
  an attempt that connects is answered by something other than \<open>ACK\<close>. Then the function
  returns (the process goes on), whatever further attempts the environment would have
  answered; the entry of the outbound table for \<open>fid\<close> holds the descriptor of the last
  attempt, which is not -1; and the last effect of the call is the failed connect on
  that descriptor.
\<close>

theorem connect_to_federate_gives_up:
  assumes "address_query_loop cfg fid 0 replies s = (Returned port, s1)"
    and "port < 65536"
    and "unat fid < length (outbound_sockets s)"
    and "pre \<noteq> []" and "\<not> connected (last pre)"
    and "\<forall>a \<in> set pre. 0 \<le> socket_fd a \<and> (connected a \<longrightarrow> answer_type a \<noteq> ACK)"
    and "int (length (filter (\<lambda>a. \<not> connected a) pre)) = CONNECT_NUM_RETRIES cfg + 1"
  shows "fst (connect_to_federate cfg fid replies (pre @ rest) s) = Returned ()
     \<and> outbound_sockets (snd (connect_to_federate cfg fid replies (pre @ rest) s)) ! unat fid
         = socket_fd (last pre)
     \<and> outbound_sockets (snd (connect_to_federate cfg fid replies (pre @ rest) s)) ! unat fid
         \<noteq> - 1
     \<and> last (io (snd (connect_to_federate cfg fid replies (pre @ rest) s)))
         = Connect (socket_fd (last pre)) port"
proof -
  from assms(1) have "outbound_sockets s1 = outbound_sockets s"
    using address_query_loop_outbound [of cfg fid 0 replies s] by simp
  with assms(3) have len: "unat fid < length (outbound_sockets s1)"
    by simp
  from assms(7) have cnt:
    "0 + int (length (filter (\<lambda>a. \<not> connected a) pre)) = CONNECT_NUM_RETRIES cfg + 1"
    by simp
  from assms(1,2) have run: "connect_to_federate cfg fid replies (pre @ rest) s
      = connect_to_federate_loop cfg fid port 0 (pre @ rest) s1"
    by (simp add: connect_to_federate_def)
  from assms(4,6) have "0 \<le> socket_fd (last pre)"
    by simp
  with connect_to_federate_loop_gives_up [OF len assms(4) assms(5) assms(6) cnt, of port rest]
    run len
  show ?thesis by simp
qed

text \<open>
  One retry allowed, the RTI gives the port 15046, and two connects are refused: the
  call returns and the entry for federate 1 holds the descriptor 5 of the second attempt.
\<close>

theorem connect_to_federate_gives_up_witness:
  "connect_to_federate example_config 1 [15046] [refused 4, refused 5] (federate_init 2)
     = (Returned (),
        (federate_init 2)\<lparr>outbound_sockets := [-1, 5],
           io := [Write (-1) (Address_query_msg 1), Connect 4 15046,
                  Nanosleep 0 100000000, Connect 5 15046]\<rparr>)"
proof -
  let ?s1 = "(federate_init 2)\<lparr>io := [Write (-1) (Address_query_msg 1)]\<rparr>"
  have q: "address_query_loop example_config 1 0 [15046] (federate_init 2)
             = (Returned 15046, ?s1)"
    by (simp add: federate_init_def Let_def)
  have "fst (connect_to_federate example_config 1 [15046] ([refused 4, refused 5] @ [])
               (federate_init 2)) = Returned ()"
    using connect_to_federate_gives_up [OF q, of "[refused 4, refused 5]" "[]"]
    by (simp add: federate_init_def refused_def example_config_def)
  moreover have "snd (connect_to_federate example_config 1 [15046] [refused 4, refused 5]
               (federate_init 2))
      = (federate_init 2)\<lparr>outbound_sockets := [-1, 5],
           io := [Write (-1) (Address_query_msg 1), Connect 4 15046,
                  Nanosleep 0 100000000, Connect 5 15046]\<rparr>"
    by (simp add: connect_to_federate_def federate_init_def refused_def example_config_def
        Let_def eval_nat_numeral)
  ultimately show ?thesis
    by (simp add: prod_eq_iff)
qed

subsection \<open>The check of the federation id\<close>

text \<open>
  C9. The federation id of this federate is \<^verbatim>\<open>abc\<close>. A peer that identifies itself
  with \<open>P2P_SENDING_FED_ID\<close>, federate id 1 and the federation id \<^verbatim>\<open>abcdef\<close> is not
  rejected:
  \<open>strncmp\<close> compares the first three characters only. It is answered with \<open>ACK\<close>, its
  socket is stored in the inbound table and a reader thread is created for it.
\<close>

theorem handle_p2p_connections_accepts_longer_federation_id:
  "handle_p2p_connections_from_federates 0
     [\<lparr>accepted_fd = 5,
       header_read = Read_full
         \<lparr>h_type = P2P_SENDING_FED_ID, h_fed_id = 1, h_federation_id_length = 6\<rparr>,
       id_read = Read_full [97, 98, 99, 100, 101, 102], thread_created = True\<rparr>]
     ((federate_init 2)\<lparr>federation_id := abc, lf_number_of_inbound_physical_connections := 1\<rparr>)
   = (Returned (),
      (federate_init 2)\<lparr>federation_id := abc, lf_number_of_inbound_physical_connections := 1,
         inbound_sockets := [-1, 5],
         io := [Write 5 Ack_msg, Pthread_create 1, Pthread_join 0]\<rparr>)"
  by (simp add: federate_init_def abc_def strnlen_def join_readers_def Let_def
      eval_nat_numeral)

end
